theory Spec2Isabelle
  imports Complex_Main "HOL-Library.Multiset"
begin

section \<open>Python values, errors and documents\<close>

text \<open>
  The renderer plugin \<^verbatim>\<open>Render/renderers/Ospray.py\<close> is embedded function by function.
  An exception of the source is a value \<open>Inl e\<close> of a sum type, a normal return is \<open>Inr v\<close>.
  Python floats are read as real numbers; the text Python prints for a number is supplied
  by the formatting functions of a \<open>pylib\<close> record, so no theorem depends on how digits
  are produced.
\<close>

datatype error =
    KeyError | IndexError | TypeError | AttributeError | ValueError | AssertionError
  | ZeroDivisionError | NotImplementedError | FileNotFoundError | JSONDecodeError

text \<open>
  A document as \<^verbatim>\<open>json.load\<close> returns it. A dict is a map from keys to values, so that
  equality of two dicts does not depend on the order of their items, as in Python.
\<close>

datatype json =
    JNull | JBool bool | JNum real | JStr string | JArr "json list"
  | JObj "string \<Rightarrow> json option"

text \<open>\<^verbatim>\<open>d[k]\<close> for a string key: only a dict accepts it.\<close>

definition getitem :: "json \<Rightarrow> string \<Rightarrow> error + json" where
  "getitem d k =
     (case d of
        JObj m \<Rightarrow> (case m k of None \<Rightarrow> Inl KeyError | Some v \<Rightarrow> Inr v)
      | _ \<Rightarrow> Inl TypeError)"

text \<open>\<^verbatim>\<open>d[k1][k2]\<close>, as in \<^verbatim>\<open>scene_graph["world"]["children"]\<close>.\<close>

definition getitem2 :: "json \<Rightarrow> string \<Rightarrow> string \<Rightarrow> error + json" where
  "getitem2 d k1 k2 = (case getitem d k1 of Inl e \<Rightarrow> Inl e | Inr v \<Rightarrow> getitem v k2)"

text \<open>\<^verbatim>\<open>d.get(k)\<close>: the value, or \<^verbatim>\<open>None\<close>; only a dict has the method.\<close>

definition dict_get :: "json \<Rightarrow> string \<Rightarrow> error + json" where
  "dict_get d k =
     (case d of
        JObj m \<Rightarrow> Inr (case m k of None \<Rightarrow> JNull | Some v \<Rightarrow> v)
      | _ \<Rightarrow> Inl AttributeError)"

text \<open>\<^verbatim>\<open>xs.remove(x)\<close>: drops the first item equal to \<open>x\<close>, ValueError when there is none.\<close>

fun list_remove :: "'a \<Rightarrow> 'a list \<Rightarrow> error + 'a list" where
  "list_remove x [] = Inl ValueError"
| "list_remove x (y # ys) =
     (if y = x then Inr ys
      else (case list_remove x ys of Inl e \<Rightarrow> Inl e | Inr r \<Rightarrow> Inr (y # r)))"

section \<open>Render-time passes over the scene graph\<close>

subsection \<open>Keeping one camera\<close>

text \<open>
  The comprehension \<^verbatim>\<open>[c for c in reversed(world_children) if c.get("freecadtype") == "camera"]\<close>,
  over the list already reversed.
\<close>

fun camera_nodes :: "json list \<Rightarrow> error + json list" where
  "camera_nodes [] = Inr []"
| "camera_nodes (c # cs) =
     (case dict_get c ''freecadtype'' of
        Inl e \<Rightarrow> Inl e
      | Inr v \<Rightarrow>
          (case camera_nodes cs of
             Inl e \<Rightarrow> Inl e
           | Inr r \<Rightarrow> Inr (if v = JStr ''camera'' then c # r else r)))"

text \<open>
  The loop \<^verbatim>\<open>for index, cam in enumerate(cameras)\<close>: each camera is removed from the
  world's children, and the one of index 0 is put back in front.
\<close>

fun keep1cam_loop :: "nat \<Rightarrow> json list \<Rightarrow> json list \<Rightarrow> error + json list" where
  "keep1cam_loop index [] world_children = Inr world_children"
| "keep1cam_loop index (cam # cameras) world_children =
     (case list_remove cam world_children of
        Inl e \<Rightarrow> Inl e
      | Inr wc \<Rightarrow> keep1cam_loop (Suc index) cameras (if index = 0 then cam # wc else wc))"

definition identity_linear :: json where
  "identity_linear =
     JObj [''x'' \<mapsto> JArr [JNum 1, JNum 0, JNum 0],
           ''y'' \<mapsto> JArr [JNum 0, JNum 1, JNum 0],
           ''z'' \<mapsto> JArr [JNum 0, JNum 0, JNum 1]]"

definition camera_descriptor :: json where
  "camera_descriptor =
     JObj [''cameraIdx'' \<mapsto> JNum 1,
           ''cameraToWorld'' \<mapsto>
             JObj [''affine'' \<mapsto> JArr [JNum 0, JNum 0, JNum 0],
                   ''linear'' \<mapsto> identity_linear]]"

text \<open>
  The source changes the list \<^verbatim>\<open>scene_graph["world"]["children"]\<close> in place; the model
  stores the new list back under the same keys. The document comes from \<^verbatim>\<open>json.load\<close>,
  so no container of it is shared with another.
\<close>

definition set_children :: "json \<Rightarrow> string \<Rightarrow> json list \<Rightarrow> json" where
  "set_children doc key xs =
     (case doc of
        JObj m \<Rightarrow>
          (case m key of
             Some (JObj w) \<Rightarrow> JObj (m(key \<mapsto> JObj (w(''children'' \<mapsto> JArr xs))))
           | _ \<Rightarrow> doc)
      | _ \<Rightarrow> doc)"

definition setitem :: "json \<Rightarrow> string \<Rightarrow> json \<Rightarrow> json" where
  "setitem doc key v = (case doc of JObj m \<Rightarrow> JObj (m(key \<mapsto> v)) | _ \<Rightarrow> doc)"

text \<open>
  \<^verbatim>\<open>_render_keep1cam\<close>. When the world's children are not a list, \<^verbatim>\<open>reversed\<close> raises
  TypeError on a number, a boolean and \<^verbatim>\<open>None\<close>; a string or a dict is iterated, its items
  are strings, and \<^verbatim>\<open>c.get\<close> raises AttributeError on the first of them, if there is one.
\<close>

definition render_keep1cam :: "json \<Rightarrow> error + json" where
  "render_keep1cam scene_graph =
     (case getitem2 scene_graph ''world'' ''children'' of
        Inl e \<Rightarrow> Inl e
      | Inr (JArr world_children) \<Rightarrow>
          (case camera_nodes (rev world_children) of
             Inl e \<Rightarrow> Inl e
           | Inr cameras \<Rightarrow>
               (case keep1cam_loop 0 cameras world_children of
                  Inl e \<Rightarrow> Inl e
                | Inr wc \<Rightarrow>
                    Inr (setitem (set_children scene_graph ''world'' wc)
                           ''camera'' camera_descriptor)))
      | Inr (JStr s) \<Rightarrow>
          (if s = [] then Inr (setitem scene_graph ''camera'' camera_descriptor)
           else Inl AttributeError)
      | Inr (JObj m) \<Rightarrow>
          (if m = Map.empty then Inr (setitem scene_graph ''camera'' camera_descriptor)
           else Inl AttributeError)
      | Inr _ \<Rightarrow> Inl TypeError)"

subsection \<open>Merging the light groups\<close>

text \<open>The sort key \<^verbatim>\<open>lambda x: x["type"] == "LIGHTS"\<close>.\<close>

definition is_lights :: "json \<Rightarrow> error + bool" where
  "is_lights x =
     (case getitem x ''type'' of Inl e \<Rightarrow> Inl e | Inr t \<Rightarrow> Inr (t = JStr ''LIGHTS''))"

text \<open>\<^verbatim>\<open>list.sort\<close> computes the key of every item first, in order, and raises if one raises.\<close>

fun sort_keys :: "json list \<Rightarrow> error + bool list" where
  "sort_keys [] = Inr []"
| "sort_keys (x # xs) =
     (case is_lights x of
        Inl e \<Rightarrow> Inl e
      | Inr k \<Rightarrow> (case sort_keys xs of Inl e \<Rightarrow> Inl e | Inr ks \<Rightarrow> Inr (k # ks)))"

text \<open>
  The sort itself, on the items paired with their keys. \<^verbatim>\<open>list.sort\<close> is stable, and a
  stable sort has one result only, the one of the insertion sort \<open>sort_key\<close>.
\<close>

definition sort_lights_last :: "json list \<Rightarrow> error + json list" where
  "sort_lights_last xs =
     (case sort_keys xs of
        Inl e \<Rightarrow> Inl e
      | Inr ks \<Rightarrow> Inr (map snd (sort_key fst (zip ks xs))))"

text \<open>
  \<^verbatim>\<open>lights += v\<close>: a list is appended, a string gives its characters, a number, a boolean
  and \<^verbatim>\<open>None\<close> raise TypeError. A dict would give its keys in insertion order, which a map
  does not record: the model raises there too, and no theorem below is about that case.
\<close>

definition extend_with :: "json list \<Rightarrow> json \<Rightarrow> error + json list" where
  "extend_with lights v =
     (case v of
        JArr ys \<Rightarrow> Inr (lights @ ys)
      | JStr s \<Rightarrow> Inr (lights @ map (\<lambda>c. JStr [c]) s)
      | _ \<Rightarrow> Inl TypeError)"

text \<open>
  The loop \<^verbatim>\<open>while remaining_lightgroups(): light = world_children.pop(); lights += light["children"]\<close>.
  \<^verbatim>\<open>remaining_lightgroups\<close> is False on an empty list (its IndexError is caught).
\<close>

function pop_lightgroups :: "json list \<Rightarrow> json list \<Rightarrow> error + (json list \<times> json list)" where
  "pop_lightgroups world_children lights =
     (if world_children = [] then Inr (world_children, lights)
      else
        (case is_lights (last world_children) of
           Inl e \<Rightarrow> Inl e
         | Inr False \<Rightarrow> Inr (world_children, lights)
         | Inr True \<Rightarrow>
             (case getitem (last world_children) ''children'' of
                Inl e \<Rightarrow> Inl e
              | Inr v \<Rightarrow>
                  (case extend_with lights v of
                     Inl e \<Rightarrow> Inl e
                   | Inr lights' \<Rightarrow> pop_lightgroups (butlast world_children) lights'))))"
  by pat_completeness auto
termination
  by (relation "measure (\<lambda>(world_children, lights). length world_children)") auto

declare pop_lightgroups.simps [simp del]

text \<open>\<^verbatim>\<open>lightsmanager_children.extend(lights)\<close>: only a list has the method.\<close>

definition render_mergelightgroups :: "json \<Rightarrow> error + json" where
  "render_mergelightgroups json_result =
     (case getitem2 json_result ''world'' ''children'' of
        Inl e \<Rightarrow> Inl e
      | Inr (JArr world_children) \<Rightarrow>
          (case sort_lights_last world_children of
             Inl e \<Rightarrow> Inl e
           | Inr sorted_children \<Rightarrow>
               (case pop_lightgroups sorted_children [] of
                  Inl e \<Rightarrow> Inl e
                | Inr (wc, lights) \<Rightarrow>
                    (let result1 = set_children json_result ''world'' wc in
                     (case getitem2 result1 ''lightsManager'' ''children'' of
                        Inl e \<Rightarrow> Inl e
                      | Inr (JArr lightsmanager_children) \<Rightarrow>
                          Inr (set_children result1 ''lightsManager''
                                 (lightsmanager_children @ lights))
                      | Inr _ \<Rightarrow> Inl AttributeError))))
      | Inr _ \<Rightarrow> Inl AttributeError)"

subsection \<open>Reading the passes' results\<close>

text \<open>The list \<^verbatim>\<open>doc[key]["children"]\<close>, when it is one.\<close>

definition list_at :: "json \<Rightarrow> string \<Rightarrow> json list option" where
  "list_at doc key =
     (case getitem2 doc key ''children'' of Inr (JArr xs) \<Rightarrow> Some xs | _ \<Rightarrow> None)"

text \<open>A node that the sort key sends last: a dict whose type is \<^verbatim>\<open>"LIGHTS"\<close>.\<close>

definition lights_node :: "json \<Rightarrow> bool" where
  "lights_node x = (is_lights x = Inr True)"

text \<open>A node tagged as a camera, as the comprehension of \<^verbatim>\<open>_render_keep1cam\<close> tests it.\<close>

definition camera_node :: "json \<Rightarrow> bool" where
  "camera_node x = (dict_get x ''freecadtype'' = Inr (JStr ''camera''))"

definition children_of :: "json \<Rightarrow> json list" where
  "children_of x = (case getitem x ''children'' of Inr (JArr ys) \<Rightarrow> ys | _ \<Rightarrow> [])"

section \<open>The render command\<close>

text \<open>
  What \<^verbatim>\<open>render\<close> reads and changes outside its arguments: the files (a file holds a
  document, or plain text that \<^verbatim>\<open>json.load\<close> rejects), the console, the user parameters
  \<^verbatim>\<open>BaseApp/Preferences/Mod/Render\<close> and the user cache path of the application.
\<close>

datatype file_content = JsonText json | PlainText string

record app_state =
  files :: "string \<Rightarrow> file_content option"
  console :: "string list"
  params :: "string \<Rightarrow> string option"
  user_cache_path :: string

text \<open>\<^verbatim>\<open>params.GetString(key, "")\<close>.\<close>

definition GetString :: "app_state \<Rightarrow> string \<Rightarrow> string" where
  "GetString st key = (case params st key of None \<Rightarrow> [] | Some v \<Rightarrow> v)"

text \<open>\<^verbatim>\<open>os.path.join(a, b)\<close> of \<^verbatim>\<open>posixpath\<close>, for two components.\<close>

definition path_join :: "string \<Rightarrow> string \<Rightarrow> string" where
  "path_join a b =
     (if b \<noteq> [] \<and> hd b = CHR ''/'' then b
      else if a = [] \<or> last a = CHR ''/'' then a @ b
      else a @ ''/'' @ b)"

text \<open>\<^verbatim>\<open>str(n)\<close> for an integer: its decimal digits.\<close>

fun str_nat :: "nat \<Rightarrow> string" where
  "str_nat n =
     (if n < 10 then [''0123456789'' ! n]
      else str_nat (n div 10) @ [''0123456789'' ! (n mod 10)])"

declare str_nat.simps [simp del]

definition str_int :: "int \<Rightarrow> string" where
  "str_int i = (if i < 0 then ''-'' @ str_nat (nat (- i)) else str_nat (nat i))"

definition enclose_rpath :: "string \<Rightarrow> string" where
  \<open>enclose_rpath rpath =
     (if rpath = [] then []
      else if hd rpath = last rpath \<and> last rpath = CHR ''"'' then rpath
      else if hd rpath = last rpath \<and> last rpath = CHR 0x27 then rpath
      else ''"'' @ rpath @ ''"'')\<close>

definition no_renderer_message :: string where
  "no_renderer_message =
     ''Unable to locate renderer executable. Please set the correct path in Edit -> Preferences -> Render\<newline>''"

text \<open>
  The first block of \<^verbatim>\<open>render\<close>: the scene file is read, the two passes are run, and the
  document is written back to the same file. An exception leaves the file as it was.
\<close>

definition rewrite_scene :: "app_state \<Rightarrow> string \<Rightarrow> error + app_state" where
  "rewrite_scene st input_file =
     (case files st input_file of
        None \<Rightarrow> Inl FileNotFoundError
      | Some (PlainText t) \<Rightarrow> Inl JSONDecodeError
      | Some (JsonText scene_graph) \<Rightarrow>
          (case render_keep1cam scene_graph of
             Inl e \<Rightarrow> Inl e
           | Inr kept \<Rightarrow>
               (case render_mergelightgroups kept of
                  Inl e \<Rightarrow> Inl e
                | Inr merged \<Rightarrow>
                    Inr (st\<lparr>files := (files st)(input_file \<mapsto> JsonText merged)\<rparr>))))"

text \<open>The name of the image: the one OSPRay will write, not the one it is asked for.\<close>

definition outfile_for_osp :: "app_state \<Rightarrow> string" where
  "outfile_for_osp st = path_join (user_cache_path st) ''ospray_out''"

definition outfile_actual :: "app_state \<Rightarrow> bool \<Rightarrow> string" where
  "outfile_actual st batch =
     (if \<not> batch then outfile_for_osp st @ ''.00000.png''
      else outfile_for_osp st @ ''.Camera_1.00000.png'')"

text \<open>The arguments of the command line, built up as the source does.\<close>

definition render_args ::
  "app_state \<Rightarrow> bool \<Rightarrow> string \<Rightarrow> int \<Rightarrow> int \<Rightarrow> int \<Rightarrow> bool \<Rightarrow> string" where
  \<open>render_args st batch output_file width height spp denoise =
     (let args = [];
          args = (if batch then args @ ''"batch" '' @ '' --camera 1 '' else args);
          args = args @ GetString st ''OspParameters'';
          args = args @ '' --resolution '' @ str_int width @ ''x'' @ str_int height @ '' '';
          args = (if output_file \<noteq> [] then
                    (let args = args @ ''  --image "'' @ outfile_for_osp st @ ''"''
                     in if \<not> batch then args @ ''  --saveImageOnExit'' else args)
                  else args);
          args = (if spp \<noteq> 0 then args @ ''  --accumLimit '' @ str_int spp @ '' --spp 1 ''
                  else args);
          args = (if denoise then
                    (let args = args @ '' --denoiser ''
                     in if spp \<noteq> 0 then args @ '' --denoiseFinalFrame '' else args)
                  else args)
      in args)\<close>

text \<open>
  \<^verbatim>\<open>render\<close>. The argument \<open>prefix\<close> is overwritten by the user parameter before it is
  read, as in the source. The result is the new state with the pair \<^verbatim>\<open>(cmd, outfile)\<close>,
  \<^verbatim>\<open>(None, None)\<close> when no renderer path is set.
\<close>

definition render ::
  "app_state \<Rightarrow> 'a \<Rightarrow> string \<Rightarrow> bool \<Rightarrow> string \<Rightarrow> string \<Rightarrow> int \<Rightarrow> int \<Rightarrow> int \<Rightarrow> bool
     \<Rightarrow> error + (app_state \<times> string option \<times> string option)" where
  \<open>render st project prefix batch input_file output_file width height spp denoise =
     (case rewrite_scene st input_file of
        Inl e \<Rightarrow> Inl e
      | Inr st1 \<Rightarrow>
          (let st2 = st1\<lparr>files := (files st1)(outfile_actual st1 batch := None)\<rparr>;
               prefix = GetString st2 ''Prefix'';
               prefix = (if prefix \<noteq> [] then prefix @ '' '' else prefix);
               rpath = GetString st2 ''OspPath'';
               args = render_args st2 batch output_file width height spp denoise
           in if rpath = [] then
                Inr (st2\<lparr>console := console st2 @ [no_renderer_message]\<rparr>, None, None)
              else
                (let rpath = enclose_rpath rpath;
                     cmd = prefix @ rpath @ '' '' @ args @ '' '' @ ''"'' @ input_file @ ''"''
                 in Inr (st2, Some cmd, Some (outfile_actual st2 batch)))))\<close>

section \<open>Materials\<close>

subsection \<open>What the module takes from Python and from its collaborators\<close>

text \<open>
  The library functions whose results are text or paths: \<open>str_float x\<close> is \<^verbatim>\<open>str(x)\<close> of a
  float (what an f-string prints for it), \<open>fmt8 x\<close> is \<^verbatim>\<open>format(x, ".8")\<close>, \<open>str_object\<close> is
  \<^verbatim>\<open>str\<close> of an object that is neither a number nor a string, \<open>str_format\<close> is
  \<^verbatim>\<open>template.format(n=.., c=.., tex=..)\<close>, and \<open>json_dumps\<close>, \<open>relpath\<close>, \<open>unicode_escape\<close>
  are \<^verbatim>\<open>json.dumps\<close>, \<^verbatim>\<open>os.path.relpath\<close> and the codec round trip of
  \<^verbatim>\<open>_new_object_file_path\<close>.
\<close>

datatype color = Color (to_linear: "real list")

datatype pyval = VFloat real | VColor color | VStr string | VTexture

datatype pynum = PInt int | PFloat real

record pylib =
  str_float :: "real \<Rightarrow> string"
  fmt8 :: "real \<Rightarrow> string"
  str_object :: "pyval \<Rightarrow> string"
  str_format :: "string \<Rightarrow> string \<Rightarrow> real list \<Rightarrow> string \<Rightarrow> error + string"
  json_dumps :: "string \<Rightarrow> string"
  relpath :: "string \<Rightarrow> string \<Rightarrow> string"
  unicode_escape :: "string \<Rightarrow> string"

definition str_num :: "pylib \<Rightarrow> pynum \<Rightarrow> string" where
  "str_num L n = (case n of PInt i \<Rightarrow> str_int i | PFloat x \<Rightarrow> str_float L x)"

definition num_val :: "pynum \<Rightarrow> real" where
  "num_val n = (case n of PInt i \<Rightarrow> real_of_int i | PFloat x \<Rightarrow> x)"

text \<open>
  The material-value bundle, as far as this module reads it: \<open>items\<close> is \<^verbatim>\<open>matval[key]\<close>
  (a formatted line), \<open>textures\<close> is \<^verbatim>\<open>matval.write_textures()\<close>, \<open>shaderproperties\<close> is
  \<^verbatim>\<open>matval.material.shaderproperties\<close>, \<open>mixed_transparency\<close> is
  \<^verbatim>\<open>matval.material.mixed.transparency\<close>.
\<close>

record submat =
  sub_items :: "string \<Rightarrow> string option"
  sub_textures :: string

record matval =
  shadertype :: string
  default_color :: color
  shaderproperties :: "string \<Rightarrow> pyval option"
  items :: "string \<Rightarrow> string option"
  has_normal :: bool
  textures :: string
  passthrough_texture :: string
  mixed_transparency :: pyval
  getmixedsubmat :: "string \<Rightarrow> string \<Rightarrow> submat"
  normal_factor :: real
  bump_factor :: real

text \<open>
  The second parameter of \<^verbatim>\<open>_write_material_fallback\<close> is named \<^verbatim>\<open>matval\<close> and is read
  through \<^verbatim>\<open>.default_color\<close>; its caller passes a colour. Both kinds of object are values
  of \<open>pyobj\<close>, and reading an attribute that an object does not have raises AttributeError.
\<close>

datatype pyobj = Bundle matval | ColorObj color

definition attr_default_color :: "pyobj \<Rightarrow> error + color" where
  "attr_default_color obj =
     (case obj of Bundle m \<Rightarrow> Inr (default_color m) | ColorObj c \<Rightarrow> Inl AttributeError)"

fun bind_err :: "error + 'a \<Rightarrow> ('a \<Rightarrow> error + 'b) \<Rightarrow> error + 'b" where
  "bind_err (Inl e) f = Inl e"
| "bind_err (Inr x) f = f x"

text \<open>\<^verbatim>\<open>xs[i]\<close> for an index that is not negative.\<close>

definition list_index :: "'a list \<Rightarrow> nat \<Rightarrow> error + 'a" where
  "list_index xs i = (if i < length xs then Inr (xs ! i) else Inl IndexError)"

definition item :: "matval \<Rightarrow> string \<Rightarrow> error + string" where
  "item m key = (case items m key of None \<Rightarrow> Inl KeyError | Some s \<Rightarrow> Inr s)"

definition sub_item :: "submat \<Rightarrow> string \<Rightarrow> error + string" where
  "sub_item m key = (case sub_items m key of None \<Rightarrow> Inl KeyError | Some s \<Rightarrow> Inr s)"

text \<open>\<^verbatim>\<open>matval["normal"] if matval.has_normal() else ""\<close>.\<close>

definition normal_line :: "matval \<Rightarrow> error + string" where
  "normal_line m = (if has_normal m then item m ''normal'' else Inr [])"

subsection \<open>The material templates\<close>

definition DISNEY_IOR :: real where
  "DISNEY_IOR = 15 / 10"

definition write_material_passthrough :: "pylib \<Rightarrow> string \<Rightarrow> matval \<Rightarrow> error + string" where
  "write_material_passthrough L name m =
     (let texture = passthrough_texture m in
      bind_err (item m ''string'') (\<lambda>s.
        str_format L (''\<newline># Passthrough\<newline>'' @ s) name
          (to_linear (default_color m)) texture))"

definition write_material_glass :: "pylib \<Rightarrow> string \<Rightarrow> matval \<Rightarrow> error + string" where
  "write_material_glass L name m =
     bind_err (item m ''ior'') (\<lambda>ior.
     bind_err (item m ''color'') (\<lambda>color.
     bind_err (normal_line m) (\<lambda>normal.
       Inr (''\<newline># Glass\<newline>type principled\<newline>'' @
            ior @
            ''\<newline>'' @
            color @
            ''\<newline>transmission 1\<newline>specular 1\<newline>metallic 0\<newline>diffuse 0'' @
            ''\<newline>opacity 1\<newline>'' @
            normal @
            ''\<newline>''))))"

definition write_material_disney :: "pylib \<Rightarrow> string \<Rightarrow> matval \<Rightarrow> error + string" where
  "write_material_disney L name m =
     bind_err (item m ''basecolor'') (\<lambda>basecolor.
     bind_err (item m ''metallic'') (\<lambda>metallic.
     bind_err (item m ''specular'') (\<lambda>specular.
     bind_err (item m ''roughness'') (\<lambda>roughness.
     bind_err (item m ''anisotropic'') (\<lambda>anisotropic.
     bind_err (item m ''sheen'') (\<lambda>sheen.
     bind_err (item m ''sheentint'') (\<lambda>sheentint.
     bind_err (item m ''clearcoat'') (\<lambda>clearcoat.
     bind_err (item m ''clearcoatgloss'') (\<lambda>clearcoatgloss.
     bind_err (normal_line m) (\<lambda>normal.
       Inr (''\<newline># Disney\<newline>type principled\<newline>'' @
            basecolor @
            ''\<newline># No subsurface scattering (Ospray limitation)\<newline>'' @
            metallic @
            ''\<newline>'' @
            specular @
            ''\<newline># No specular tint (Ospray limitation)\<newline>'' @
            roughness @
            ''\<newline>'' @
            anisotropic @
            ''\<newline>'' @
            sheen @
            ''\<newline>'' @
            sheentint @
            ''\<newline>'' @
            clearcoat @
            ''\<newline>'' @
            clearcoatgloss @
            ''\<newline>'' @
            normal @
            ''\<newline>ior '' @
            str_float L DISNEY_IOR @
            ''\<newline>coatIor '' @
            str_float L DISNEY_IOR @
            ''\<newline>'')))))))))))"

definition write_material_pbr :: "pylib \<Rightarrow> string \<Rightarrow> matval \<Rightarrow> error + string" where
  "write_material_pbr L name m =
     bind_err (item m ''basecolor'') (\<lambda>basecolor.
     bind_err (item m ''metallic'') (\<lambda>metallic.
     bind_err (item m ''specular'') (\<lambda>specular.
     bind_err (item m ''roughness'') (\<lambda>roughness.
     bind_err (normal_line m) (\<lambda>normal.
       Inr (''\<newline># Pbr ('' @
            [CHR 0x27] @
            name @
            [CHR 0x27] @
            '')\<newline>type principled\<newline>'' @
            basecolor @
            ''\<newline># No subsurface scattering (Ospray limitation)\<newline>'' @
            metallic @
            ''\<newline>'' @
            specular @
            ''\<newline>'' @
            roughness @
            ''\<newline>'' @
            normal @
            ''\<newline>''))))))"

definition write_material_diffuse :: "pylib \<Rightarrow> string \<Rightarrow> matval \<Rightarrow> error + string" where
  "write_material_diffuse L name m =
     bind_err (item m ''color'') (\<lambda>color.
     bind_err (normal_line m) (\<lambda>normal.
       Inr (''\<newline># Diffuse\<newline>type principled\<newline>'' @
            color @
            ''\<newline>metallic 0\<newline>specular 0\<newline>diffuse 1\<newline>'' @
            normal @
            ''\<newline>'')))"

text \<open>
  \<^verbatim>\<open>assert isinstance(transparency, float)\<close> comes before the template, whose expressions
  are evaluated from left to right.
\<close>

definition write_material_mixed :: "pylib \<Rightarrow> string \<Rightarrow> matval \<Rightarrow> error + string" where
  "write_material_mixed L name m =
     (let submat_g = getmixedsubmat m ''glass'' (name @ ''_glass'');
          snippet_g_tex = sub_textures submat_g;
          submat_d = getmixedsubmat m ''diffuse'' (name @ ''_diffuse'');
          snippet_d_tex = sub_textures submat_d
      in case mixed_transparency m of
           VFloat transparency \<Rightarrow>
             bind_err (sub_item submat_d ''color'') (\<lambda>d_color.
             bind_err (sub_item submat_g ''ior'') (\<lambda>g_ior.
             bind_err (sub_item submat_g ''color'') (\<lambda>g_color.
             bind_err (normal_line m) (\<lambda>normal.
               Inr ((''\<newline># Mixed\<newline>type principled\<newline>'' @
                    d_color @
                    ''\<newline>'' @
                    g_ior @
                    ''\<newline>transmission '' @
                    str_float L transparency @
                    ''\<newline>'' @
                    g_color @
                    ''\<newline>opacity '' @
                    str_float L (1 - transparency) @
                    ''\<newline>specular 0.5\<newline>'' @
                    normal @
                    ''\<newline>'')
                    @ snippet_d_tex @ snippet_g_tex)))))
         | _ \<Rightarrow> Inl AssertionError)"

definition write_material_carpaint :: "pylib \<Rightarrow> string \<Rightarrow> matval \<Rightarrow> error + string" where
  "write_material_carpaint L name m =
     bind_err (item m ''basecolor'') (\<lambda>basecolor.
     bind_err (normal_line m) (\<lambda>normal.
       Inr (''\<newline># Carpaint\<newline>type carPaint\<newline>'' @
            basecolor @
            ''\<newline>'' @
            normal @
            ''\<newline>'')))"

definition write_material_emission :: "pylib \<Rightarrow> string \<Rightarrow> matval \<Rightarrow> error + string" where
  "write_material_emission L name m =
     bind_err (item m ''color'') (\<lambda>color.
     bind_err (item m ''power'') (\<lambda>power.
       Inr (''\<newline># Emission ('' @
            [CHR 0x27] @
            name @
            [CHR 0x27] @
            '')\<newline>type luminous\<newline>'' @
            color @
            ''\<newline>'' @
            power @
            ''\<newline>transparency 0.0\<newline>'')))"

subsection \<open>The fallback material and the dispatcher\<close>

text \<open>The text of the fallback material for three numbers.\<close>

definition fallback_snippet :: "pylib \<Rightarrow> pynum \<Rightarrow> pynum \<Rightarrow> pynum \<Rightarrow> string" where
  "fallback_snippet L red grn blu =
     ''\<newline># Fallback\<newline>type obj\<newline>kd '' @
     str_num L red @
     '' '' @
     str_num L grn @
     '' '' @
     str_num L blu @
     ''\<newline>ns 2\<newline>''"

text \<open>The body of the \<^verbatim>\<open>try\<close> block of \<^verbatim>\<open>_write_material_fallback\<close>.\<close>

definition fallback_try :: "pyobj \<Rightarrow> error + (pynum \<times> pynum \<times> pynum)" where
  "fallback_try obj =
     bind_err (attr_default_color obj) (\<lambda>c.
       (let lcol = to_linear c in
        bind_err (list_index lcol 0) (\<lambda>red.
        bind_err (list_index lcol 1) (\<lambda>grn.
        bind_err (list_index lcol 2) (\<lambda>blu.
          if (0 \<le> red \<and> red \<le> 1) \<and> (0 \<le> grn \<and> grn \<le> 1) \<and> (0 \<le> blu \<and> blu \<le> 1)
          then Inr (PFloat red, PFloat grn, PFloat blu)
          else Inl AssertionError)))))"

text \<open>
  \<^verbatim>\<open>_write_material_fallback\<close>: the four exceptions of the \<^verbatim>\<open>except\<close> clause give white,
  as the integers \<^verbatim>\<open>1, 1, 1\<close>; any other exception goes on to the caller.
\<close>

definition write_material_fallback :: "pylib \<Rightarrow> string \<Rightarrow> pyobj \<Rightarrow> error + string" where
  "write_material_fallback L name obj =
     (case fallback_try obj of
        Inr (red, grn, blu) \<Rightarrow> Inr (fallback_snippet L red grn blu)
      | Inl e \<Rightarrow>
          (if e \<in> {AttributeError, ValueError, TypeError, AssertionError}
           then Inr (fallback_snippet L (PInt 1) (PInt 1) (PInt 1))
           else Inl e))"

definition MATERIALS :: "(string \<times> (pylib \<Rightarrow> string \<Rightarrow> matval \<Rightarrow> error + string)) list" where
  "MATERIALS =
     [(''Passthrough'', write_material_passthrough),
      (''Glass'', write_material_glass),
      (''Disney'', write_material_disney),
      (''Diffuse'', write_material_diffuse),
      (''Mixed'', write_material_mixed),
      (''Carpaint'', write_material_carpaint),
      (''Substance_PBR'', write_material_pbr),
      (''Emission'', write_material_emission)]"

definition unknown_material_message :: "string \<Rightarrow> string \<Rightarrow> string" where
  "unknown_material_message name st =
     [CHR 0x27] @
     name @
     [CHR 0x27] @
     '' - Material '' @
     [CHR 0x27] @
     st @
     [CHR 0x27] @
     '' unknown by renderer, using fallback material\<newline>''"

text \<open>
  \<^verbatim>\<open>_write_material\<close>. The result is the text printed on the console with the material.
  On a KeyError of the table the fallback is called with \<^verbatim>\<open>matval.default_color\<close>.
\<close>

definition write_material :: "pylib \<Rightarrow> string \<Rightarrow> matval \<Rightarrow> error + (string list \<times> string)" where
  "write_material L name m =
     (case map_of MATERIALS (shadertype m) of
        None \<Rightarrow>
          bind_err (write_material_fallback L name (ColorObj (default_color m))) (\<lambda>snippet_mat.
            Inr ([unknown_material_message name (shadertype m)], snippet_mat))
      | Some material_function \<Rightarrow>
          bind_err (material_function L name m) (\<lambda>snippet.
            Inr ([], snippet @ textures m)))"

section \<open>Textures, values and texture references\<close>

text \<open>
  \<^verbatim>\<open>_FIELD_MAPPING\<close>: the inner \<open>None\<close> is Python's \<^verbatim>\<open>None\<close> ("will exclude").
\<close>

definition FIELD_MAPPING :: "((string \<times> string) \<times> string option) list" where
  "FIELD_MAPPING =
     [((''Diffuse'', ''color''), Some ''baseColor''),
      ((''Diffuse'', ''bump''), None),
      ((''Diffuse'', ''displacement''), None),
      ((''Substance_PBR'', ''basecolor''), Some ''baseColor''),
      ((''Substance_PBR'', ''bump''), None),
      ((''Disney'', ''basecolor''), Some ''baseColor''),
      ((''Disney'', ''subsurface''), Some []),
      ((''Disney'', ''speculartint''), Some []),
      ((''Disney'', ''anisotropic''), Some ''anisotropy''),
      ((''Disney'', ''sheentint''), Some ''sheenTint''),
      ((''Disney'', ''clearcoat''), Some ''coat''),
      ((''Disney'', ''clearcoatgloss''), Some ''coatRoughness''),
      ((''Disney'', ''bump''), None),
      ((''Disney'', ''displacement''), None),
      ((''Glass'', ''color''), Some ''transmissionColor''),
      ((''Glass'', ''ior''), Some ''ior''),
      ((''Glass'', ''bump''), None),
      ((''Glass'', ''displacement''), None),
      ((''Carpaint'', ''basecolor''), Some ''baseColor''),
      ((''Mixed'', ''transparency''), Some ''transmission''),
      ((''Mixed'', ''diffuse''), Some []),
      ((''Mixed'', ''shader''), Some []),
      ((''Mixed'', ''glass''), Some []),
      ((''Mixed'', ''bump''), None),
      ((''Mixed'', ''displacement''), None),
      ((''glass'', ''color''), Some ''transmissionColor''),
      ((''diffuse'', ''color''), Some ''baseColor''),
      ((''Emission'', ''power''), Some ''intensity''),
      ((''Passthrough'', ''string''), Some []),
      ((''Passthrough'', ''renderer''), Some [])]"

text \<open>
  \<^verbatim>\<open>_FIELD_MAPPING.get((shadertype, propname), propname)\<close>; the argument \<^verbatim>\<open>shadertype\<close>
  of the three helpers is written \<open>shtype\<close>, the name \<open>shadertype\<close> being the bundle's field.
\<close>

definition field_of :: "string \<Rightarrow> string \<Rightarrow> string option" where
  "field_of shtype propname =
     (case map_of FIELD_MAPPING (shtype, propname) of
        None \<Rightarrow> Some propname
      | Some field \<Rightarrow> field)"

definition skipping_message :: "string \<Rightarrow> string \<Rightarrow> string \<Rightarrow> string" where
  "skipping_message objname shtype propname =
     ''[Render] [Ospray] ['' @ objname @ ''] Warning: '' @ [CHR 0x27] @ shtype @ ''::''
     @ propname @ [CHR 0x27] @ '' is not supported by Ospray. Skipping...\<newline>''"

definition texture_unsupported_message :: "string \<Rightarrow> string \<Rightarrow> string \<Rightarrow> string" where
  "texture_unsupported_message objname shtype propname =
     ''[Render] [Ospray] ['' @ objname @ ''] Warning: texture for '' @ [CHR 0x27] @ shtype
     @ ''::'' @ propname @ [CHR 0x27] @ '' ''
     @ ''is not supported by Ospray. Falling back to default value.\<newline>''"

subsection \<open>Textures\<close>

text \<open>The texture object of a property: its file and its placement on the surface.\<close>

record texture =
  tex_file :: string
  scale :: real
  rotation :: real
  translation_u :: real
  translation_v :: real

text \<open>
  \<^verbatim>\<open>_write_texture\<close>; the result is the console output and the pair \<^verbatim>\<open>(propname, tex)\<close>.
\<close>

definition write_texture ::
  "pylib \<Rightarrow> string \<Rightarrow> string \<Rightarrow> string \<Rightarrow> texture \<Rightarrow> string \<Rightarrow> string
     \<Rightarrow> error + (string list \<times> string \<times> string)" where
  "write_texture L proptype propname shtype propvalue objname object_directory =
     (let filename = relpath L (tex_file propvalue) object_directory in
      case field_of shtype propname of
        None \<Rightarrow> Inr ([], propname, [])
      | Some field \<Rightarrow>
          if propname \<in> set [''clearcoatgloss'', ''ior'', ''subsurface'', ''speculartint'',
                              ''bump'', ''displacement'']
          then Inr ([texture_unsupported_message objname shtype propname], propname, [])
          else if proptype \<in> set [''RGB'', ''float'', ''texonly'', ''texscalar'']
          then Inr ([], propname,
                 ''# Texture '' @ field @ ''\<newline>''
                 @ ''map_'' @ field @ '' '' @ filename @ ''\<newline>''
                 @ ''map_'' @ field @ ''.rotation '' @ str_float L (rotation propvalue)
                 @ ''\<newline>''
                 @ ''map_'' @ field @ ''.scale '' @ str_float L (scale propvalue) @ '' ''
                 @ str_float L (scale propvalue) @ ''\<newline>''
                 @ ''map_'' @ field @ ''.translation '' @ str_float L (translation_u propvalue)
                 @ '' '' @ str_float L (translation_v propvalue))
          else if proptype = ''node'' then Inr ([], propname, [])
          else Inl NotImplementedError)"

subsection \<open>Values\<close>

text \<open>\<^verbatim>\<open>1 - val\<close>: a float only.\<close>

definition one_minus :: "pyval \<Rightarrow> error + pyval" where
  "one_minus val = (case val of VFloat x \<Rightarrow> Inr (VFloat (1 - x)) | _ \<Rightarrow> Inl TypeError)"

text \<open>
  \<^verbatim>\<open>hasattr(metallic, "is_texture") or float(metallic)\<close>: a texture has the attribute;
  \<^verbatim>\<open>float\<close> of a colour raises TypeError and \<^verbatim>\<open>float\<close> of a string raises ValueError (a
  string that spells a number is not modelled).
\<close>

definition metallic_active :: "pyval \<Rightarrow> error + bool" where
  "metallic_active metallic =
     (case metallic of
        VTexture \<Rightarrow> Inr True
      | VFloat x \<Rightarrow> Inr (x \<noteq> 0)
      | VColor c \<Rightarrow> Inl TypeError
      | VStr s \<Rightarrow> Inl ValueError)"

text \<open>\<^verbatim>\<open>val <= 0.0\<close>.\<close>

definition le_zero :: "pyval \<Rightarrow> error + bool" where
  "le_zero val = (case val of VFloat x \<Rightarrow> Inr (x \<le> 0) | _ \<Rightarrow> Inl TypeError)"

text \<open>The block \<^verbatim>\<open># Special cases\<close> of \<^verbatim>\<open>_write_value\<close>.\<close>

definition special_cases :: "string \<Rightarrow> pyval \<Rightarrow> matval \<Rightarrow> error + pyval" where
  "special_cases propname val m =
     bind_err (if propname = ''clearcoatgloss'' then one_minus val else Inr val) (\<lambda>val.
       if propname = ''specular'' then
         (case shaderproperties m ''metallic'' of
            None \<Rightarrow> Inr val
          | Some metallic \<Rightarrow>
              bind_err (metallic_active metallic) (\<lambda>active.
                if active then
                  bind_err (le_zero val) (\<lambda>neg. Inr (if neg then metallic else val))
                else Inr val))
       else Inr val)"

text \<open>\<^verbatim>\<open>val.to_linear()\<close>: only a colour has the method.\<close>

definition linear_of :: "pyval \<Rightarrow> error + real list" where
  "linear_of val = (case val of VColor c \<Rightarrow> Inr (to_linear c) | _ \<Rightarrow> Inl AttributeError)"

text \<open>
  \<^verbatim>\<open>f"{val:.8}"\<close>: a float is printed with 8 significant digits, a string is cut to 8
  characters, another object rejects the format.
\<close>

definition format8 :: "pylib \<Rightarrow> pyval \<Rightarrow> error + string" where
  "format8 L val =
     (case val of
        VFloat x \<Rightarrow> Inr (fmt8 L x)
      | VStr s \<Rightarrow> Inr (take 8 s)
      | _ \<Rightarrow> Inl TypeError)"

text \<open>\<^verbatim>\<open>f"{val}"\<close>.\<close>

definition py_str :: "pylib \<Rightarrow> pyval \<Rightarrow> string" where
  "py_str L val =
     (case val of VStr s \<Rightarrow> s | VFloat x \<Rightarrow> str_float L x | _ \<Rightarrow> str_object L val)"

text \<open>The block \<^verbatim>\<open># Snippets for values\<close> of \<^verbatim>\<open>_write_value\<close>.\<close>

definition format_value :: "pylib \<Rightarrow> string \<Rightarrow> string \<Rightarrow> pyval \<Rightarrow> error + string" where
  "format_value L proptype field val =
     (if proptype = ''RGB'' then
        bind_err (linear_of val) (\<lambda>lcol.
        bind_err (list_index lcol 0) (\<lambda>c0.
        bind_err (list_index lcol 1) (\<lambda>c1.
        bind_err (list_index lcol 2) (\<lambda>c2.
          Inr (field @ '' '' @ fmt8 L c0 @ '' '' @ fmt8 L c1 @ '' '' @ fmt8 L c2)))))
      else if proptype = ''float'' then
        bind_err (format8 L val) (\<lambda>v. Inr (field @ '' '' @ v))
      else if proptype = ''node'' then Inr []
      else if proptype = ''RGBA'' then
        bind_err (linear_of val) (\<lambda>lcol.
        bind_err (list_index lcol 0) (\<lambda>c0.
        bind_err (list_index lcol 1) (\<lambda>c1.
        bind_err (list_index lcol 2) (\<lambda>c2.
        bind_err (list_index lcol 3) (\<lambda>c3.
          Inr (field @ '' '' @ fmt8 L c0 @ '' '' @ fmt8 L c1 @ '' '' @ fmt8 L c2 @ '' ''
               @ fmt8 L c3))))))
      else if proptype = ''str'' then Inr (field @ '' '' @ py_str L val)
      else Inl NotImplementedError)"

text \<open>\<^verbatim>\<open>_write_value\<close>; the result is the console output and the value.\<close>

definition write_value ::
  "pylib \<Rightarrow> string \<Rightarrow> string \<Rightarrow> string \<Rightarrow> pyval \<Rightarrow> string \<Rightarrow> matval
     \<Rightarrow> error + (string list \<times> string)" where
  "write_value L proptype propname shtype propvalue objname m =
     (case field_of shtype propname of
        None \<Rightarrow> Inr ([skipping_message objname shtype propname], [])
      | Some field \<Rightarrow>
          bind_err (special_cases propname propvalue m) (\<lambda>val.
          bind_err (format_value L proptype field val) (\<lambda>formatted.
            Inr ([], formatted))))"

subsection \<open>Texture references\<close>

text \<open>\<^verbatim>\<open>_write_texref\<close>.\<close>

definition write_texref ::
  "pylib \<Rightarrow> string \<Rightarrow> string \<Rightarrow> string \<Rightarrow> string \<Rightarrow> matval \<Rightarrow> error + (string list \<times> string)" where
  "write_texref L proptype propname shtype objname m =
     (case field_of shtype propname of
        None \<Rightarrow> Inr ([skipping_message objname shtype propname], [])
      | Some field \<Rightarrow>
          if propname \<in> set [''clearcoatgloss'', ''ior''] then
            Inr ([], if propname = ''ior'' then field @ '' 1.5'' else field @ '' 1.0'')
          else if proptype = ''RGB'' then Inr ([], field @ '' 1.0 1.0 1.0'')
          else if proptype = ''float'' then Inr ([], field @ '' 1.0'')
          else if proptype = ''node'' then Inr ([], field @ '' 1.0'')
          else if proptype = ''RGBA'' then Inr ([], field @ '' 1.0 1.0 1.0 1.0'')
          else if proptype = ''texonly'' then
            Inr ([], if propname = ''normal'' then field @ '' 4.0'' else field @ '' 1.0'')
          else if proptype = ''texscalar'' then
            Inr ([], if propname = ''normal'' then field @ '' '' @ str_float L (normal_factor m)
                     else field @ '' '' @ str_float L (bump_factor m))
          else Inl NotImplementedError)"

section \<open>Lights\<close>

subsection \<open>Vectors, placements and angles\<close>

text \<open>
  FreeCAD's \<^verbatim>\<open>Vector\<close> and \<^verbatim>\<open>Placement\<close>, read as a point of space and as the affine map
  that the placement stands for: \<open>Rotation\<close> holds the rows of its rotation matrix and \<open>Base\<close> its
  translation.
\<close>

type_synonym vec = "real \<times> real \<times> real"

record placement =
  Rotation :: "vec \<times> vec \<times> vec"
  Base :: vec

definition dot :: "vec \<Rightarrow> vec \<Rightarrow> real" where
  "dot u v = (case u of (a, b, c) \<Rightarrow> (case v of (x, y, z) \<Rightarrow> a * x + b * y + c * z))"

definition vadd :: "vec \<Rightarrow> vec \<Rightarrow> vec" where
  "vadd u v = (case u of (a, b, c) \<Rightarrow> (case v of (x, y, z) \<Rightarrow> (a + x, b + y, c + z)))"

definition mat_vec :: "vec \<times> vec \<times> vec \<Rightarrow> vec \<Rightarrow> vec" where
  "mat_vec M v = (case M of (r1, r2, r3) \<Rightarrow> (dot r1 v, dot r2 v, dot r3 v))"

definition columns :: "vec \<times> vec \<times> vec \<Rightarrow> vec \<times> vec \<times> vec" where
  "columns M =
     (case M of ((a, b, c), (d, e, f), (g, h, i)) \<Rightarrow> ((a, d, g), (b, e, h), (c, f, i)))"

text \<open>\<^verbatim>\<open>plc.multVec(v)\<close> and \<^verbatim>\<open>plc.multiply(other)\<close>.\<close>

definition multVec :: "placement \<Rightarrow> vec \<Rightarrow> vec" where
  "multVec plc v = vadd (mat_vec (Rotation plc) v) (Base plc)"

definition multiply :: "placement \<Rightarrow> placement \<Rightarrow> placement" where
  "multiply plc other =
     (case columns (Rotation other) of
        (c1, c2, c3) \<Rightarrow>
          \<lparr>Rotation = columns (mat_vec (Rotation plc) c1, mat_vec (Rotation plc) c2,
                              mat_vec (Rotation plc) c3),
           Base = multVec plc (Base other)\<rparr>)"

text \<open>
  \<^verbatim>\<open>PLACEMENT = App.Placement(App.Matrix(1, 0, 0, 0, 0, 0, 1, 0, 0, -1, 0, 0, 0, 0, 0, 1))\<close>:
  from FreeCAD's coordinates (z is up) to OSPRay's (y is up).
\<close>

definition PLACEMENT :: placement where
  "PLACEMENT = \<lparr>Rotation = ((1, 0, 0), (0, 0, 1), (0, - 1, 0)), Base = (0, 0, 0)\<rparr>"

text \<open>
  \<^verbatim>\<open>math.degrees\<close>, \<^verbatim>\<open>math.asin\<close> (a ValueError outside \<open>[-1, 1]\<close>) and \<^verbatim>\<open>math.atan2(y, x)\<close>,
  the angle of the point \<open>(x, y)\<close> in \<open>(-\<pi>, \<pi>]\<close>, which is 0 at the origin.
\<close>

definition degrees :: "real \<Rightarrow> real" where
  "degrees a = a * 180 / pi"

definition asin :: "real \<Rightarrow> error + real" where
  "asin t = (if - 1 \<le> t \<and> t \<le> 1 then Inr (arcsin t) else Inl ValueError)"

definition atan2 :: "real \<Rightarrow> real \<Rightarrow> real" where
  "atan2 y x =
     (if 0 < x then arctan (y / x)
      else if x < 0 then (if 0 \<le> y then arctan (y / x) + pi else arctan (y / x) - pi)
      else if 0 < y then pi / 2
      else if y < 0 then - pi / 2
      else 0)"

text \<open>\<^verbatim>\<open>a / b\<close> on floats.\<close>

definition py_div :: "real \<Rightarrow> real \<Rightarrow> error + real" where
  "py_div a b = (if b = 0 then Inl ZeroDivisionError else Inr (a / b))"

subsection \<open>Files of the object directory\<close>

text \<open>\<^verbatim>\<open>os.path.basename\<close> of \<^verbatim>\<open>posixpath\<close>: what follows the last slash.\<close>

definition basename :: "string \<Rightarrow> string" where
  "basename p = rev (takeWhile (\<lambda>c. c \<noteq> CHR ''/'') (rev p))"

text \<open>\<^verbatim>\<open>_new_object_file_path\<close>: the file name and its path relative to the project.\<close>

definition new_object_file_path ::
  "pylib \<Rightarrow> string \<Rightarrow> string \<Rightarrow> string \<Rightarrow> string \<Rightarrow> string \<times> string" where
  "new_object_file_path L base extension project_directory object_directory =
     (let filename = base @ ''.'' @ extension;
          abspath = path_join object_directory filename;
          rel = relpath L abspath project_directory;
          rel = unicode_escape L rel
      in (abspath, rel))"

text \<open>\<^verbatim>\<open>with open(path, "w") as f: f.write(text)\<close>.\<close>

definition write_text :: "app_state \<Rightarrow> string \<Rightarrow> string \<Rightarrow> app_state" where
  "write_text st path content = st\<lparr>files := (files st)(path \<mapsto> PlainText content)\<rparr>"

subsection \<open>Area light\<close>

text \<open>The three texts of \<^verbatim>\<open>write_arealight\<close>, for the values that fill them.\<close>

definition arealight_mtl :: "pylib \<Rightarrow> real \<Rightarrow> real \<Rightarrow> real \<Rightarrow> real \<Rightarrow> real \<Rightarrow> string" where
  \<open>arealight_mtl L c0 c1 c2 radiance transparency =
     ''\<newline># Created by FreeCAD <https://FreeCAD.Org>",\<newline>newmtl material'' @
     ''\<newline>type luminous\<newline>color '' @
     str_float L c0 @
     '' '' @
     str_float L c1 @
     '' '' @
     str_float L c2 @
     ''\<newline>intensity '' @
     str_float L radiance @
     ''\<newline>transparency '' @
     str_float L transparency @
     ''\<newline>''\<close>

definition arealight_obj :: "pylib \<Rightarrow> string \<Rightarrow> string \<Rightarrow> vec \<Rightarrow> string \<Rightarrow> string" where
  \<open>arealight_obj L mtl_name verts normal name =
     (case normal of (nx, ny, nz) \<Rightarrow>
     ''\<newline># Created by FreeCAD <https://FreeCAD.Org>"]\<newline>mtllib '' @
     mtl_name @
     ''\<newline>'' @
     verts @
     ''\<newline>vn '' @
     str_float L nx @
     '' '' @
     str_float L ny @
     '' '' @
     str_float L nz @
     ''\<newline>o '' @
     name @
     ''\<newline>usemtl material\<newline>f 1//1 2//1 3//1 4//1\<newline>'')\<close>

definition importer_snippet :: "pylib \<Rightarrow> string \<Rightarrow> string \<Rightarrow> string" where
  \<open>importer_snippet L name filename =
     ''\<newline>      {\<newline>        "name": '' @
     json_dumps L name @
     '',\<newline>        "type": "IMPORTER",\<newline>        "filename": '' @
     json_dumps L filename @
     ''\<newline>      },''\<close>

text \<open>The lines joined by a newline (\<^verbatim>\<open>str.join\<close>).\<close>

fun join_lines :: "string list \<Rightarrow> string" where
  "join_lines [] = []"
| "join_lines [x] = x"
| "join_lines (x # y # ys) = x @ ''\<newline>'' @ join_lines (y # ys)"

definition vertex_line :: "pylib \<Rightarrow> vec \<Rightarrow> string" where
  "vertex_line L v =
     (case v of (x, y, z) \<Rightarrow>
        ''v '' @ str_float L x @ '' '' @ str_float L y @ '' '' @ str_float L z)"

text \<open>
  \<^verbatim>\<open>write_arealight\<close>: the material file is written first, with the radiance computed from
  the power (the argument \<^verbatim>\<open>power\<close>, written \<open>light_power\<close>), then the geometry file; the
  result is the new state with the SDL text.
\<close>

definition write_arealight ::
  "app_state \<Rightarrow> pylib \<Rightarrow> string \<Rightarrow> placement \<Rightarrow> real \<Rightarrow> real \<Rightarrow> color \<Rightarrow> real \<Rightarrow> bool
     \<Rightarrow> string \<Rightarrow> string \<Rightarrow> error + (app_state \<times> string)" where
  "write_arealight st L name pos size_u size_v color light_power transparent
       project_directory object_directory =
     bind_err (py_div light_power (size_u * size_v)) (\<lambda>radiance.
       (let radiance = radiance / 1000;
            transparency = (if transparent then 1 else 0);
            lcol = to_linear color
        in bind_err (list_index lcol 0) (\<lambda>c0.
           bind_err (list_index lcol 1) (\<lambda>c1.
           bind_err (list_index lcol 2) (\<lambda>c2.
             (let mtl = arealight_mtl L c0 c1 c2 radiance transparency;
                  mtl_file = fst (new_object_file_path L name ''mtl''
                                    project_directory object_directory);
                  st = write_text st mtl_file mtl;
                  osp_pos = multiply PLACEMENT pos;
                  verts = [(- size_u, - size_v, 0), (size_u, - size_v, 0),
                           (size_u, size_v, 0), (- size_u, size_v, 0)];
                  verts = map (multVec osp_pos) verts;
                  verts = map (vertex_line L) verts;
                  verts = join_lines verts;
                  normal = multVec osp_pos (0, 0, 1);
                  obj = arealight_obj L (basename mtl_file) verts normal name;
                  (obj_file, obj_file_rel) =
                    new_object_file_path L name ''obj'' project_directory object_directory;
                  st = write_text st obj_file obj
              in Inr (st, importer_snippet L name obj_file_rel)))))))"

subsection \<open>Sun and sky light\<close>

definition sky_intensity_warning :: string where
  "sky_intensity_warning =
     ''[Render][Ospray] - WARNING: sunsky light - sky intensity is not supported (should be kept at 1.0).''"

text \<open>The text of \<^verbatim>\<open>write_sunskylight\<close>, for the values that fill it.\<close>

definition sunsky_snippet ::
  "pylib \<Rightarrow> string \<Rightarrow> real \<Rightarrow> real \<Rightarrow> real \<Rightarrow> real \<Rightarrow> real \<Rightarrow> string" where
  \<open>sunsky_snippet L name intensity elevation azimuth turbidity albedo =
     ''\<newline>      {\<newline>        "description": "Lights",\<newline>'' @
     ''        "name": "lights",\<newline>        "subType": "lights",\<newline>'' @
     ''        "type": "LIGHTS",\<newline>        "children": [\<newline>          {'' @
     ''\<newline>            "name": '' @
     json_dumps L name @
     '',\<newline>            "description": "Sunsky light",\<newline>'' @
     ''            "type": "LIGHT",\<newline>            "subType": "sunSky",\<newline>'' @
     ''            "children": [\<newline>              {\<newline>'' @
     ''                "description": "whether the light can be seen directly",\<newline>'' @
     ''                "name": "visible",\<newline>                "sgOnly": false,\<newline>'' @
     ''                "subType": "bool",\<newline>                "type": "PARAMETER",'' @
     ''\<newline>                "value": true\<newline>              },\<newline>'' @
     ''              {\<newline>'' @
     ''                "description": "intensity of the light (a factor)",\<newline>'' @
     ''                "name": "intensity",\<newline>                "sgOnly": false,'' @
     ''\<newline>                "subType": "float",\<newline>'' @
     ''                "type": "PARAMETER",\<newline>                "value": '' @
     str_float L intensity @
     ''\<newline>              },\<newline>              {\<newline>'' @
     ''                "description": "color of the light",\<newline>'' @
     ''                "name": "color",\<newline>                "sgOnly": false,\<newline>'' @
     ''                "subType": "rgb",\<newline>                "type": "PARAMETER",'' @
     ''\<newline>                "value": [1.0, 1.0, 1.0]\<newline>              },\<newline>'' @
     ''              {\<newline>                "description": "OSPRay light type",\<newline>'' @
     ''                "name": "type",\<newline>                "sgOnly": true,\<newline>'' @
     ''                "subType": "string",\<newline>                "type": "PARAMETER",'' @
     ''\<newline>                "value": "sunSky"\<newline>              },\<newline>'' @
     ''              {\<newline>                "description": "Up direction",\<newline>'' @
     ''                "name": "up",\<newline>                "sgOnly": false,\<newline>'' @
     ''                "subType": "vec3f",\<newline>                "type": "PARAMETER",'' @
     ''\<newline>                "value": [0.0, 1.0, 0.0]\<newline>              },\<newline>'' @
     ''              {\<newline>                "description": "Right direction",\<newline>'' @
     ''                "name": "right",\<newline>                "sgOnly": true,\<newline>'' @
     ''                "subType": "vec3f",\<newline>                "type": "PARAMETER",'' @
     ''\<newline>                "value": [1.0, 0.0, 0.0]\<newline>              },\<newline>'' @
     ''              {\<newline>                "description": "Angle to horizon",\<newline>'' @
     ''                "name": "elevation",\<newline>                "sgOnly": true,'' @
     ''\<newline>                "subType": "float",\<newline>'' @
     ''                "type": "PARAMETER",\<newline>                "value": '' @
     str_float L elevation @
     ''\<newline>              },\<newline>              {\<newline>'' @
     ''                "description": "Angle to North",\<newline>'' @
     ''                "name": "azimuth",\<newline>                "sgOnly": true,\<newline>'' @
     ''                "subType": "float",\<newline>                "type": "PARAMETER",'' @
     ''\<newline>                "value": '' @
     str_float L azimuth @
     ''\<newline>              },\<newline>              {\<newline>'' @
     ''                "description": "Turbidity",\<newline>'' @
     ''                "name": "turbidity",\<newline>                "sgOnly": false,'' @
     ''\<newline>                "subType": "float",\<newline>'' @
     ''                "type": "PARAMETER",\<newline>                "value": '' @
     str_float L turbidity @
     ''\<newline>              },\<newline>              {\<newline>'' @
     ''                "description": "Ground albedo",\<newline>'' @
     ''                "name": "albedo",\<newline>                "sgOnly": false,\<newline>'' @
     ''                "subType": "float",\<newline>                "type": "PARAMETER",'' @
     ''\<newline>                "value": '' @
     str_float L albedo @
     ''\<newline>              }\<newline>            ]\<newline>          }\<newline>'' @
     ''        ]\<newline>      },''\<close>

text \<open>
  \<^verbatim>\<open>write_sunskylight\<close>: the angles are computed on the direction in OSPRay's coordinates;
  the result is the console output with the SDL text. The sky intensity is only compared
  with 1.
\<close>

definition write_sunskylight ::
  "pylib \<Rightarrow> string \<Rightarrow> vec \<Rightarrow> real \<Rightarrow> real \<Rightarrow> real \<Rightarrow> real \<Rightarrow> real
     \<Rightarrow> error + (string list \<times> string)" where
  "write_sunskylight L name direction distance turbidity albedo sun_intensity sky_intensity =
     (case multVec PLACEMENT direction of
        (dir_x, dir_y, dir_z) \<Rightarrow>
          bind_err (py_div dir_y (sqrt (dir_x ^ 2 + dir_y ^ 2 + dir_z ^ 2))) (\<lambda>ratio.
          bind_err (asin ratio) (\<lambda>elevation.
            (let azimuth = atan2 dir_x dir_z;
                 intensity = sun_intensity * (5 / 100);
                 printed = (if sky_intensity \<noteq> 1 then [sky_intensity_warning] else [])
             in Inr (printed,
                     sunsky_snippet L name intensity (degrees elevation) (degrees azimuth)
                       turbidity albedo)))))"

section \<open>Sample inputs\<close>

text \<open>Small scene graphs and values on which the theorems below are instantiated.\<close>

definition geo :: json where
  "geo = JObj [''name'' \<mapsto> JStr ''box'', ''type'' \<mapsto> JStr ''IMPORTER'']"

definition lamp :: "string \<Rightarrow> json" where
  "lamp n = JObj [''name'' \<mapsto> JStr n, ''type'' \<mapsto> JStr ''LIGHT'']"

definition lgroup :: "json list \<Rightarrow> json" where
  "lgroup xs =
     JObj [''name'' \<mapsto> JStr ''lights'', ''type'' \<mapsto> JStr ''LIGHTS'', ''children'' \<mapsto> JArr xs]"

definition scene_lights :: json where
  "scene_lights =
     JObj [''world'' \<mapsto> JObj [''children'' \<mapsto> JArr [lgroup [lamp ''a''], geo, lgroup [lamp ''b'']]],
           ''lightsManager'' \<mapsto> JObj [''children'' \<mapsto> JArr []]]"

definition camera :: "string \<Rightarrow> json" where
  "camera n =
     JObj [''name'' \<mapsto> JStr n, ''type'' \<mapsto> JStr ''IMPORTER'',
           ''filename'' \<mapsto> JStr (n @ ''.gltf''), ''freecadtype'' \<mapsto> JStr ''camera'']"

definition scene_twin_cameras :: json where
  "scene_twin_cameras =
     JObj [''world'' \<mapsto> JObj [''children'' \<mapsto> JArr [geo, camera ''Camera'', camera ''Camera'']],
           ''lightsManager'' \<mapsto> JObj [''children'' \<mapsto> JArr []]]"

definition scene_lights_kept :: json where
  "scene_lights_kept =
     setitem (set_children scene_lights ''world'' [lgroup [lamp ''a''], geo, lgroup [lamp ''b'']])
       ''camera'' camera_descriptor"

definition scene_lights_merged :: json where
  "scene_lights_merged =
     set_children (set_children scene_lights_kept ''world'' [geo])
       ''lightsManager'' [lamp ''b'', lamp ''a'']"

definition scene_file_state :: "string \<Rightarrow> app_state" where
  "scene_file_state rpath =
     \<lparr>files = [''/tmp/scene.sg'' \<mapsto> JsonText scene_lights], console = [],
      params = [''OspPath'' \<mapsto> rpath], user_cache_path = ''/home/u/.cache''\<rparr>"

text \<open>
  A library for the samples: it prints the few floats that occur in them as Python does.
\<close>

definition sample_str_float :: "real \<Rightarrow> string" where
  "sample_str_float x =
     (if x = 0 then ''0.0'' else if x = 1 / 2 then ''0.5'' else if x = 1 then ''1.0''
      else if x = 2 then ''2.0'' else ''#'')"

definition sample_lib :: pylib where
  \<open>sample_lib =
     \<lparr>str_float = sample_str_float, fmt8 = sample_str_float, str_object = (\<lambda>v. ''<object>''),
      str_format = (\<lambda>t n c tex. Inr t), json_dumps = (\<lambda>s. ''"'' @ s @ ''"''),
      relpath = (\<lambda>p start. p), unicode_escape = (\<lambda>s. s)\<rparr>\<close>

definition sample_bundle :: "string \<Rightarrow> color \<Rightarrow> matval" where
  "sample_bundle st c =
     \<lparr>shadertype = st, default_color = c, shaderproperties = Map.empty, items = Map.empty,
      has_normal = False, textures = [], passthrough_texture = [],
      mixed_transparency = VFloat 0,
      getmixedsubmat = (\<lambda>kind name. \<lparr>sub_items = Map.empty, sub_textures = []\<rparr>),
      normal_factor = 1, bump_factor = 1\<rparr>"

text \<open>
  The reading of claim C1 that is compared with the code: the fallback text for the default
  colour, each component clamped into the unit interval.
\<close>

definition clamp01 :: "real \<Rightarrow> real" where
  "clamp01 x = max 0 (min 1 x)"

definition clamped_fallback :: "pylib \<Rightarrow> matval \<Rightarrow> string" where
  "clamped_fallback L m =
     (let lcol = to_linear (default_color m) in
      fallback_snippet L (PFloat (clamp01 (lcol ! 0))) (PFloat (clamp01 (lcol ! 1)))
        (PFloat (clamp01 (lcol ! 2))))"

definition identity_placement :: placement where
  "identity_placement = \<lparr>Rotation = ((1, 0, 0), (0, 1, 0), (0, 0, 1)), Base = (0, 0, 0)\<rparr>"

definition empty_state :: app_state where
  "empty_state = \<lparr>files = Map.empty, console = [], params = Map.empty, user_cache_path = []\<rparr>"

section \<open>Properties of the light-group pass\<close>

lemma sort_keys_typed:
  "(\<And>x. x \<in> set xs \<Longrightarrow> \<exists>b. is_lights x = Inr b) \<Longrightarrow> sort_keys xs = Inr (map lights_node xs)"
proof (induction xs)
  case Nil
  then show ?case by simp
next
  case (Cons x xs)
  from Cons.prems[of x] obtain b where b: "is_lights x = Inr b" by auto
  have "sort_keys xs = Inr (map lights_node xs)" using Cons by simp
  then show ?case using b by (simp add: lights_node_def)
qed

lemma insort_true:
  "f x \<Longrightarrow> \<forall>a\<in>set A. \<not> f a \<Longrightarrow> \<forall>b\<in>set B. f b \<Longrightarrow> insort_key f x (A @ B) = A @ x # B"
proof (induction A)
  case Nil
  then show ?case by (cases B) auto
next
  case (Cons a A)
  then show ?case by simp
qed

lemma sort_key_bool:
  "sort_key f xs = filter (\<lambda>x. \<not> f x) xs @ filter f xs"
proof (induction xs)
  case Nil then show ?case by simp
next
  case (Cons x xs)
  show ?case
  proof (cases "f x")
    case True
    have "insort_key f x (filter (\<lambda>x. \<not> f x) xs @ filter f xs) = filter (\<lambda>x. \<not> f x) xs @ x # filter f xs"
      by (rule insort_true) (use True in auto)
    then show ?thesis using Cons True by simp
  next
    case False
    have "insort_key f x ys = x # ys" for ys
      using False by (cases ys) auto
    then show ?thesis using Cons False by simp
  qed
qed

lemma sort_zip:
  "map snd (sort_key fst (zip (map f xs) xs)) = filter (\<lambda>x. \<not> f x) xs @ filter f xs"
proof -
  have z: "zip (map f xs) xs = map (\<lambda>x. (f x, x)) xs" by (induction xs) auto
  show ?thesis unfolding z sort_key_bool by (simp add: filter_map o_def)
qed

lemma sort_lights_last_typed:
  assumes "\<And>x. x \<in> set xs \<Longrightarrow> \<exists>b. is_lights x = Inr b"
  shows "sort_lights_last xs = Inr (filter (\<lambda>x. \<not> lights_node x) xs @ filter lights_node xs)"
  unfolding sort_lights_last_def using sort_keys_typed[OF assms] by (simp add: sort_zip)

lemma pop_lightgroups_trailing:
  assumes "A = [] \<or> is_lights (last A) = Inr False"
    and "\<forall>x\<in>set B. is_lights x = Inr True \<and> (\<exists>ys. getitem x ''children'' = Inr (JArr ys))"
  shows "pop_lightgroups (A @ B) acc = Inr (A, acc @ concat (map children_of (rev B)))"
  using assms(2)
proof (induction B arbitrary: acc rule: rev_induct)
  case Nil
  show ?case using assms(1) by (auto simp: pop_lightgroups.simps[of A acc])
next
  case (snoc x B)
  from snoc.prems obtain ys where x: "is_lights x = Inr True" "getitem x ''children'' = Inr (JArr ys)"
    by auto
  have ih: "pop_lightgroups (A @ B) (acc @ ys) = Inr (A, (acc @ ys) @ concat (map children_of (rev B)))"
    using snoc by simp
  have "pop_lightgroups (A @ B @ [x]) acc = pop_lightgroups (A @ B) (acc @ ys)"
    using x by (subst pop_lightgroups.simps) (simp add: extend_with_def butlast_append)
  moreover have "children_of x = ys" using x by (simp add: children_of_def)
  ultimately show ?case using ih by simp
qed

lemma list_at_set_children_same:
  "list_at doc key = Some ys \<Longrightarrow> list_at (set_children doc key xs) key = Some xs"
  by (auto simp: list_at_def set_children_def getitem2_def getitem_def
      split: json.splits option.splits sum.splits)

lemma list_at_set_children_other:
  "key' \<noteq> key \<Longrightarrow> list_at (set_children doc key xs) key' = list_at doc key'"
  by (auto simp: list_at_def set_children_def getitem2_def getitem_def
      split: json.splits option.splits sum.splits)

lemma list_at_getitem2:
  "list_at doc key = Some xs \<longleftrightarrow> getitem2 doc key ''children'' = Inr (JArr xs)"
  by (auto simp: list_at_def split: sum.splits json.splits)

lemma mergelightgroups_run:
  assumes world: "list_at sg ''world'' = Some wc"
    and lm: "list_at sg ''lightsManager'' = Some lc"
    and typed: "\<forall>x\<in>set wc. \<not> isl (is_lights x)"
    and groups: "\<forall>x\<in>set wc. lights_node x \<longrightarrow> (\<exists>ys. getitem x ''children'' = Inr (JArr ys))"
  shows "render_mergelightgroups sg =
           Inr (set_children (set_children sg ''world'' (filter (\<lambda>x. \<not> lights_node x) wc))
                  ''lightsManager''
                  (lc @ concat (map children_of (rev (filter lights_node wc)))))"
    and "sort_lights_last wc =
           Inr (filter (\<lambda>x. \<not> lights_node x) wc @ filter lights_node wc)"
proof -
  let ?N = "filter (\<lambda>x. \<not> lights_node x) wc"
  let ?L = "filter lights_node wc"
  let ?lights = "concat (map children_of (rev ?L))"
  have ty: "\<exists>b. is_lights x = Inr b" if "x \<in> set wc" for x
    using typed that by (cases "is_lights x") auto
  show srt: "sort_lights_last wc = Inr (?N @ ?L)"
    by (rule sort_lights_last_typed) (rule ty)
  have lastN: "?N = [] \<or> is_lights (last ?N) = Inr False"
  proof (cases "?N = []")
    case True then show ?thesis by simp
  next
    case False
    then have "last ?N \<in> set ?N" by (rule last_in_set)
    then have "last ?N \<in> set wc" "\<not> lights_node (last ?N)" by auto
    then show ?thesis using ty[of "last ?N"] by (auto simp: lights_node_def)
  qed
  have allL: "\<forall>x\<in>set ?L. is_lights x = Inr True \<and> (\<exists>ys. getitem x ''children'' = Inr (JArr ys))"
    using groups by (auto simp: lights_node_def)
  have pop: "pop_lightgroups (?N @ ?L) [] = Inr (?N, ?lights)"
    using pop_lightgroups_trailing[OF lastN allL, of "[]"] by simp
  have r1lm: "list_at (set_children sg ''world'' ?N) ''lightsManager'' = Some lc"
    using lm by (simp add: list_at_set_children_other)
  show "render_mergelightgroups sg =
          Inr (set_children (set_children sg ''world'' ?N) ''lightsManager'' (lc @ ?lights))"
    using world r1lm srt pop
    by (simp add: render_mergelightgroups_def list_at_getitem2)
qed

text \<open>
  Claim C4. On a scene graph whose world children all carry a type and whose light groups
  carry a list of children, the light-group pass returns; every child of every
  \<^verbatim>\<open>LIGHTS\<close> node of the world is then a child of \<^verbatim>\<open>lightsManager\<close>, no \<^verbatim>\<open>LIGHTS\<close>
  node is left among the world's children, and the sort that moves the groups last keeps
  the order of the other nodes and of the groups (it is stable).
\<close>

theorem mergelightgroups_flattens:
  assumes world: "list_at sg ''world'' = Some wc"
    and lm: "list_at sg ''lightsManager'' = Some lc"
    and typed: "\<forall>x\<in>set wc. \<not> isl (is_lights x)"
    and groups: "\<forall>x\<in>set wc. lights_node x \<longrightarrow> (\<exists>ys. getitem x ''children'' = Inr (JArr ys))"
  shows "\<exists>sg' wc' lc'.
           render_mergelightgroups sg = Inr sg'
         \<and> list_at sg' ''world'' = Some wc'
         \<and> list_at sg' ''lightsManager'' = Some lc'
         \<and> (\<forall>g\<in>set wc. lights_node g \<longrightarrow> set (children_of g) \<subseteq> set lc')
         \<and> (\<forall>x\<in>set wc'. \<not> lights_node x)
         \<and> wc' = filter (\<lambda>x. \<not> lights_node x) wc
         \<and> lc' = lc @ concat (map children_of (rev (filter lights_node wc)))
         \<and> sort_lights_last wc =
               Inr (filter (\<lambda>x. \<not> lights_node x) wc @ filter lights_node wc)"
proof -
  let ?N = "filter (\<lambda>x. \<not> lights_node x) wc"
  let ?lights = "concat (map children_of (rev (filter lights_node wc)))"
  let ?r1 = "set_children sg ''world'' ?N"
  let ?r2 = "set_children ?r1 ''lightsManager'' (lc @ ?lights)"
  note run = mergelightgroups_run[OF assms]
  have r1lm: "list_at ?r1 ''lightsManager'' = Some lc"
    using lm by (simp add: list_at_set_children_other)
  have r1w: "list_at ?r1 ''world'' = Some ?N"
    using world by (rule list_at_set_children_same)
  have r2w: "list_at ?r2 ''world'' = Some ?N"
    using r1w by (simp add: list_at_set_children_other)
  have r2lm: "list_at ?r2 ''lightsManager'' = Some (lc @ ?lights)"
    using r1lm by (rule list_at_set_children_same)
  have sub: "\<forall>g\<in>set wc. lights_node g \<longrightarrow> set (children_of g) \<subseteq> set (lc @ ?lights)"
    by auto
  show ?thesis using run r2w r2lm sub by auto
qed

theorem mergelightgroups_flattens_witness:
  "\<exists>sg'. render_mergelightgroups scene_lights = Inr sg'
     \<and> list_at sg' ''world'' = Some [geo]
     \<and> list_at sg' ''lightsManager'' = Some [lamp ''b'', lamp ''a'']"
proof -
  have t: "is_lights geo = Inr False" "is_lights (lgroup xs) = Inr True" for xs
    by (simp_all add: is_lights_def getitem_def geo_def lgroup_def)
  have c: "children_of (lgroup xs) = xs" for xs
    by (simp add: children_of_def getitem_def lgroup_def)
  have g: "getitem (lgroup xs) ''children'' = Inr (JArr xs)" for xs
    by (simp add: getitem_def lgroup_def)
  have h1: "list_at scene_lights ''world'' = Some [lgroup [lamp ''a''], geo, lgroup [lamp ''b'']]"
    by (simp add: scene_lights_def list_at_def getitem2_def getitem_def)
  have h2: "list_at scene_lights ''lightsManager'' = Some []"
    by (simp add: scene_lights_def list_at_def getitem2_def getitem_def)
  show ?thesis
    using mergelightgroups_flattens[OF h1 h2] by (auto simp: t c g lights_node_def)
qed

section \<open>The passes on the sample scenes\<close>

lemma dict_differs: "m k \<noteq> m' k \<Longrightarrow> JObj m \<noteq> JObj m'"
  by auto

lemma dict_get_samples [simp]:
  "dict_get geo ''freecadtype'' = Inr JNull"
  "dict_get (camera n) ''freecadtype'' = Inr (JStr ''camera'')"
  "dict_get (lgroup xs) ''freecadtype'' = Inr JNull"
  by (simp_all add: dict_get_def geo_def camera_def lgroup_def)

lemma is_lights_samples [simp]:
  "is_lights geo = Inr False"
  "is_lights (camera n) = Inr False"
  "is_lights (lgroup xs) = Inr True"
  by (simp_all add: is_lights_def getitem_def geo_def camera_def lgroup_def)

lemma children_samples [simp]:
  "getitem (lgroup xs) ''children'' = Inr (JArr xs)"
  "children_of (lgroup xs) = xs"
  by (simp_all add: children_of_def getitem_def lgroup_def)

lemma list_at_setitem:
  "key' \<noteq> key \<Longrightarrow> list_at (setitem doc key' v) key = list_at doc key"
  by (auto simp: list_at_def setitem_def getitem2_def getitem_def split: json.splits)

lemma getitem_setitem_dict:
  "getitem (setitem (JObj m) key v) key = Inr v"
  by (simp add: setitem_def getitem_def)

lemma getitem_set_children_other:
  "key' \<noteq> key \<Longrightarrow> getitem (set_children doc key xs) key' = getitem doc key'"
  by (auto simp: set_children_def getitem_def split: json.splits option.splits)

lemma scene_lights_lists:
  "list_at scene_lights ''world'' = Some [lgroup [lamp ''a''], geo, lgroup [lamp ''b'']]"
  "list_at scene_lights ''lightsManager'' = Some []"
  by (simp_all add: scene_lights_def list_at_def getitem2_def getitem_def)

lemma scene_lights_keep1cam: "render_keep1cam scene_lights = Inr scene_lights_kept"
  using scene_lights_lists(1)
  by (simp add: render_keep1cam_def list_at_getitem2 scene_lights_kept_def)

lemma scene_lights_kept_lists:
  "list_at scene_lights_kept ''world'' = Some [lgroup [lamp ''a''], geo, lgroup [lamp ''b'']]"
  "list_at scene_lights_kept ''lightsManager'' = Some []"
  unfolding scene_lights_kept_def
  by (simp_all add: list_at_setitem list_at_set_children_same[OF scene_lights_lists(1)]
       list_at_set_children_other scene_lights_lists)

lemma scene_lights_merge: "render_mergelightgroups scene_lights_kept = Inr scene_lights_merged"
  using mergelightgroups_run(1)[OF scene_lights_kept_lists]
  by (simp add: lights_node_def scene_lights_merged_def)

lemma scene_lights_merged_lists:
  "list_at scene_lights_merged ''world'' = Some [geo]"
  "list_at scene_lights_merged ''lightsManager'' = Some [lamp ''b'', lamp ''a'']"
  unfolding scene_lights_merged_def
  by (simp_all add: list_at_set_children_other
      list_at_set_children_same[OF scene_lights_kept_lists(1)]
      list_at_set_children_same[of _ _ "[]"] scene_lights_kept_lists)

lemma scene_lights_merged_camera:
  "getitem scene_lights_merged ''camera'' = Inr camera_descriptor"
  unfolding scene_lights_merged_def scene_lights_kept_def
  by (simp add: getitem_set_children_other)
    (simp add: scene_lights_def set_children_def setitem_def getitem_def)

lemma scene_file_rewrite:
  "rewrite_scene (scene_file_state rpath) ''/tmp/scene.sg''
     = Inr ((scene_file_state rpath)
             \<lparr>files := (files (scene_file_state rpath))(''/tmp/scene.sg'' \<mapsto> JsonText scene_lights_merged)\<rparr>)"
  by (simp add: rewrite_scene_def scene_file_state_def scene_lights_keep1cam scene_lights_merge)


section \<open>Properties of the camera pass\<close>

lemma geo_not_camera: "geo \<noteq> camera n"
  unfolding geo_def camera_def by (rule dict_differs[where k = "''freecadtype''"]) simp

lemma list_remove_mem: "x \<in> set xs \<Longrightarrow> list_remove x xs = Inr (remove1 x xs)"
  by (induction xs) auto

lemma camera_nodes_dicts:
  "\<forall>x\<in>set xs. \<not> isl (dict_get x ''freecadtype'') \<Longrightarrow>
     camera_nodes xs = Inr (filter camera_node xs)"
proof (induction xs)
  case Nil
  then show ?case by simp
next
  case (Cons x xs)
  then obtain v where v: "dict_get x ''freecadtype'' = Inr v"
    by (cases "dict_get x ''freecadtype''") auto
  show ?case using Cons v by (simp add: camera_node_def)
qed

lemma keep1cam_loop_later:
  "mset cs \<subseteq># mset ws \<Longrightarrow> keep1cam_loop (Suc i) cs ws = Inr (fold remove1 cs ws)"
proof (induction cs arbitrary: ws i)
  case Nil
  then show ?case by simp
next
  case (Cons c cs)
  have c: "c \<in> set ws" using Cons.prems by (metis mset_subset_eq_insertD set_mset_mset mset.simps(2))
  have "mset cs \<subseteq># mset (remove1 c ws)"
    using Cons.prems c by (simp add: insert_subset_eq_iff)
  then show ?case using Cons.IH[of "remove1 c ws" "Suc i"] c by (simp add: list_remove_mem)
qed

lemma mset_fold_remove1: "mset (fold remove1 cs ws) = mset ws - mset cs"
  by (induction cs arbitrary: ws) auto

lemma filter_remove1_other: "\<not> P c \<Longrightarrow> filter P (remove1 c xs) = filter P xs"
  by (induction xs) auto

lemma filter_fold_remove1_other:
  "\<forall>c\<in>set cs. \<not> P c \<Longrightarrow> filter P (fold remove1 cs ws) = filter P ws"
  by (induction cs arbitrary: ws) (auto simp: filter_remove1_other)

lemma fold_remove1_Cons:
  "c0 \<notin> set cs \<Longrightarrow> fold remove1 cs (c0 # w) = c0 # fold remove1 cs w"
  by (induction cs arbitrary: w) auto

lemma keep1cam_loop_result:
  assumes cams: "filter camera_node (rev wc) = c0 # rest"
  shows "\<exists>wc'. keep1cam_loop 0 (c0 # rest) wc = Inr wc'
           \<and> filter camera_node wc' = [c0]
           \<and> filter (\<lambda>x. \<not> camera_node x) wc' = filter (\<lambda>x. \<not> camera_node x) wc
           \<and> (c0 \<notin> set rest \<longrightarrow> wc' = c0 # filter (\<lambda>x. \<not> camera_node x) wc)"
proof -
  define start where "start = c0 # remove1 c0 wc"
  define wc' where "wc' = fold remove1 rest start"
  have "c0 \<in> set (filter camera_node (rev wc))" unfolding cams by simp
  then have c0: "c0 \<in> set wc" "camera_node c0" by auto
  have "set rest \<subseteq> set (filter camera_node (rev wc))" unfolding cams by auto
  then have rest: "\<forall>c\<in>set rest. camera_node c" by auto
  have "mset (filter camera_node (rev wc)) = mset (c0 # rest)" unfolding cams ..
  then have m: "filter_mset camera_node (mset wc) = add_mset c0 (mset rest)" by simp
  have start: "mset start = mset wc" unfolding start_def using c0(1) by simp
  have "mset rest \<subseteq># add_mset c0 (mset rest)" by simp
  also have "\<dots> = filter_mset camera_node (mset wc)" by (rule m[symmetric])
  also have "\<dots> \<subseteq># mset wc" by (rule multiset_filter_subset)
  finally have sub: "mset rest \<subseteq># mset start" unfolding start .
  have "list_remove c0 wc = Inr (remove1 c0 wc)" using c0(1) by (rule list_remove_mem)
  then have "keep1cam_loop 0 (c0 # rest) wc = keep1cam_loop (Suc 0) rest start"
    unfolding start_def by simp
  then have run: "keep1cam_loop 0 (c0 # rest) wc = Inr wc'"
    unfolding wc'_def using keep1cam_loop_later[OF sub, of 0] by simp
  have frest: "filter_mset camera_node (mset rest) = mset rest"
    using rest by (induction rest) auto
  have "mset wc' = mset wc - mset rest"
    unfolding wc'_def mset_fold_remove1 start ..
  then have "filter_mset camera_node (mset wc') = filter_mset camera_node (mset wc) - mset rest"
    by (simp only: filter_diff_mset frest)
  then have "filter_mset camera_node (mset wc') = {#c0#}" unfolding m by simp
  then have "mset (filter camera_node wc') = mset [c0]" by simp
  then have one: "filter camera_node wc' = [c0]" by (metis mset_single_iff_right)
  have "filter (\<lambda>x. \<not> camera_node x) wc' = filter (\<lambda>x. \<not> camera_node x) start"
    unfolding wc'_def using rest by (intro filter_fold_remove1_other) simp
  also have "\<dots> = filter (\<lambda>x. \<not> camera_node x) (remove1 c0 wc)"
    unfolding start_def using c0(2) by simp
  also have "\<dots> = filter (\<lambda>x. \<not> camera_node x) wc"
    using c0(2) by (intro filter_remove1_other) simp
  finally have others: "filter (\<lambda>x. \<not> camera_node x) wc' = filter (\<lambda>x. \<not> camera_node x) wc" .
  have first: "wc' = c0 # filter (\<lambda>x. \<not> camera_node x) wc" if "c0 \<notin> set rest"
  proof -
    define T where "T = fold remove1 rest (remove1 c0 wc)"
    have split: "wc' = c0 # T" unfolding wc'_def start_def T_def using that by (rule fold_remove1_Cons)
    have "filter camera_node T = []" using one c0(2) unfolding split by simp
    then have "\<forall>x\<in>set T. \<not> camera_node x" by (simp add: filter_empty_conv)
    then have "filter (\<lambda>x. \<not> camera_node x) T = T" by (simp add: filter_id_conv)
    moreover have "filter (\<lambda>x. \<not> camera_node x) T = filter (\<lambda>x. \<not> camera_node x) wc"
      using others c0(2) unfolding split by simp
    ultimately show ?thesis using split by simp
  qed
  show ?thesis using run one others first by blast
qed

lemma set_children_dict:
  "list_at doc key = Some xs \<Longrightarrow> \<exists>m. set_children doc key ys = JObj m"
  by (auto simp: list_at_def set_children_def getitem2_def getitem_def
      split: json.splits option.splits sum.splits)

text \<open>
  What the camera pass does on every scene graph whose world children are dicts, at least
  one of them a camera: it returns, exactly one camera is left, it is the last camera of the
  original order, the other nodes keep their order, and the camera descriptor is set. The
  camera is first in the list when no other camera node is equal to it.
\<close>

lemma keep1cam_result:
  assumes world: "list_at sg ''world'' = Some wc"
    and dicts: "\<forall>x\<in>set wc. \<not> isl (dict_get x ''freecadtype'')"
    and some: "filter camera_node wc \<noteq> []"
  shows "\<exists>sg' wc'.
           render_keep1cam sg = Inr sg'
         \<and> list_at sg' ''world'' = Some wc'
         \<and> filter camera_node wc' = [last (filter camera_node wc)]
         \<and> filter (\<lambda>x. \<not> camera_node x) wc' = filter (\<lambda>x. \<not> camera_node x) wc
         \<and> getitem sg' ''camera'' = Inr camera_descriptor
         \<and> (last (filter camera_node wc) \<notin> set (butlast (filter camera_node wc)) \<longrightarrow>
              wc' = last (filter camera_node wc) # filter (\<lambda>x. \<not> camera_node x) wc)"
proof -
  define F where "F = filter camera_node wc"
  have F: "F \<noteq> []" using some by (simp add: F_def)
  have "filter camera_node (rev wc) = rev F" by (simp add: F_def rev_filter)
  also have "\<dots> = last F # rev (butlast F)"
    using F by (metis append_butlast_last_id rev.simps(2) rev_append rev_rev_ident)
  finally have cams: "filter camera_node (rev wc) = last F # rev (butlast F)" .
  obtain wc' where loop: "keep1cam_loop 0 (last F # rev (butlast F)) wc = Inr wc'"
    and one: "filter camera_node wc' = [last F]"
    and others: "filter (\<lambda>x. \<not> camera_node x) wc' = filter (\<lambda>x. \<not> camera_node x) wc"
    and first: "last F \<notin> set (rev (butlast F)) \<longrightarrow> wc' = last F # filter (\<lambda>x. \<not> camera_node x) wc"
    using keep1cam_loop_result[OF cams] by blast
  have nodes: "camera_nodes (rev wc) = Inr (last F # rev (butlast F))"
    using camera_nodes_dicts[of "rev wc"] dicts cams by simp
  let ?sg' = "setitem (set_children sg ''world'' wc') ''camera'' camera_descriptor"
  have run: "render_keep1cam sg = Inr ?sg'"
    using world nodes loop by (simp add: render_keep1cam_def list_at_getitem2)
  have w: "list_at ?sg' ''world'' = Some wc'"
    using list_at_set_children_same[OF world] by (simp add: list_at_setitem)
  obtain m where "set_children sg ''world'' wc' = JObj m"
    using set_children_dict[OF world] by blast
  then have c: "getitem ?sg' ''camera'' = Inr camera_descriptor"
    by (simp add: getitem_setitem_dict)
  show ?thesis using run w one others c first unfolding F_def by auto
qed

text \<open>
  Claim C3, at a scene graph whose world children are a mesh node followed by two camera
  nodes that are equal as values: \<^verbatim>\<open>list.remove\<close> compares by value, so the second removal
  takes the camera that the first iteration had put in front. One camera is left and the
  camera descriptor is set, but the camera comes after the mesh node, not first.
\<close>

theorem keep1cam_twin_cameras:
  "\<exists>sg'. render_keep1cam scene_twin_cameras = Inr sg'
     \<and> list_at sg' ''world'' = Some [geo, camera ''Camera'']
     \<and> getitem sg' ''camera'' = Inr camera_descriptor"
proof -
  have w: "getitem2 scene_twin_cameras ''world'' ''children''
             = Inr (JArr [geo, camera ''Camera'', camera ''Camera''])"
    by (simp add: scene_twin_cameras_def getitem2_def getitem_def)
  have l: "list_at scene_twin_cameras ''world'' = Some [geo, camera ''Camera'', camera ''Camera'']"
    by (simp add: list_at_def w)
  have run: "render_keep1cam scene_twin_cameras =
     Inr (setitem (set_children scene_twin_cameras ''world'' [geo, camera ''Camera''])
            ''camera'' camera_descriptor)"
    by (simp add: render_keep1cam_def w geo_not_camera)
  have g: "getitem (setitem (set_children scene_twin_cameras ''world'' xs) ''camera'' v) ''camera'' = Inr v" for xs v
    by (simp add: scene_twin_cameras_def set_children_def setitem_def getitem_def)
  show ?thesis
    by (simp add: run list_at_setitem list_at_set_children_same[OF l] g)
qed

section \<open>Properties of the render command\<close>

lemma path_join_suffix:
  "b \<noteq> [] \<Longrightarrow> path_join a b @ s = path_join a (b @ s)"
  by (simp add: path_join_def)

lemma rewrite_scene_keeps:
  "rewrite_scene st f = Inr st1 \<Longrightarrow>
     console st1 = console st \<and> params st1 = params st \<and> user_cache_path st1 = user_cache_path st"
  by (auto simp: rewrite_scene_def split: option.splits file_content.splits sum.splits)

lemma GetString_files [simp]: "GetString (st\<lparr>files := f\<rparr>) k = GetString st k"
  by (simp add: GetString_def)

lemma outfile_actual_files [simp]: "outfile_actual (st\<lparr>files := f\<rparr>) b = outfile_actual st b"
  by (simp add: outfile_actual_def outfile_for_osp_def)

lemma rewrite_scene_GetString:
  "rewrite_scene st f = Inr st1 \<Longrightarrow> GetString st1 k = GetString st k"
  by (auto simp: GetString_def dest: rewrite_scene_keeps)

lemma rewrite_scene_outfile:
  "rewrite_scene st f = Inr st1 \<Longrightarrow> outfile_actual st1 b = outfile_actual st b"
  by (auto simp: outfile_actual_def outfile_for_osp_def dest: rewrite_scene_keeps)

lemma outfile_actual_joined:
  "outfile_actual st batch =
     path_join (user_cache_path st)
       (if batch then ''ospray_out.Camera_1.00000.png'' else ''ospray_out.00000.png'')"
  by (simp add: outfile_actual_def outfile_for_osp_def path_join_suffix)

lemma scene_file_params [simp]:
  "GetString (scene_file_state rpath) ''OspPath'' = rpath"
  "user_cache_path (scene_file_state rpath) = ''/home/u/.cache''"
  "console (scene_file_state rpath) = []"
  by (simp_all add: GetString_def scene_file_state_def)

text \<open>
  Claim C5. When a renderer path is configured and the scene file can be rewritten, the
  output image path that \<^verbatim>\<open>render\<close> returns is the cache directory joined with
  \<^verbatim>\<open>ospray_out.Camera_1.00000.png\<close> in batch mode and with \<^verbatim>\<open>ospray_out.00000.png\<close>
  otherwise.
\<close>

theorem render_output_path:
  assumes "rewrite_scene st input_file = Inr st1"
    and "GetString st ''OspPath'' \<noteq> []"
  shows "\<exists>st' cmd.
           render st project prefix batch input_file output_file width height spp denoise
             = Inr (st', Some cmd,
                    Some (path_join (user_cache_path st)
                            (if batch then ''ospray_out.Camera_1.00000.png''
                             else ''ospray_out.00000.png'')))"
  using assms rewrite_scene_GetString[OF assms(1)] rewrite_scene_outfile[OF assms(1)]
  by (simp add: render_def Let_def outfile_actual_joined)

theorem render_output_path_witness:
  "(\<exists>st' cmd.
      render (scene_file_state ''/usr/bin/ospStudio'') () [] True ''/tmp/scene.sg'' ''out.png''
        800 600 16 False
        = Inr (st', Some cmd, Some ''/home/u/.cache/ospray_out.Camera_1.00000.png''))
   \<and> (\<exists>st' cmd.
      render (scene_file_state ''/usr/bin/ospStudio'') () [] False ''/tmp/scene.sg'' ''out.png''
        800 600 16 False
        = Inr (st', Some cmd, Some ''/home/u/.cache/ospray_out.00000.png''))"
  using render_output_path[OF scene_file_rewrite, of "''/usr/bin/ospStudio''" "()" "[]" True
      "''out.png''" 800 600 16 False]
    render_output_path[OF scene_file_rewrite, of "''/usr/bin/ospStudio''" "()" "[]" False
      "''out.png''" 800 600 16 False]
  by (simp add: path_join_def)

text \<open>
  Claim C9. When the configured renderer path is empty and the scene file can be rewritten,
  \<^verbatim>\<open>render\<close> prints the error message for the user on the console and returns no command:
  both components of its result are \<^verbatim>\<open>None\<close>.
\<close>

theorem render_no_renderer_path:
  assumes "rewrite_scene st input_file = Inr st1"
    and "GetString st ''OspPath'' = []"
  shows "\<exists>st'.
           render st project prefix batch input_file output_file width height spp denoise
             = Inr (st', None, None)
         \<and> console st' = console st @ [no_renderer_message]"
  using assms rewrite_scene_GetString[OF assms(1)] rewrite_scene_keeps[OF assms(1)]
  by (simp add: render_def Let_def)

theorem render_no_renderer_path_witness:
  "\<exists>st'.
     render (scene_file_state []) () [] True ''/tmp/scene.sg'' ''out.png'' 800 600 16 False
       = Inr (st', None, None)
   \<and> console st' = [no_renderer_message]"
  using render_no_renderer_path[OF scene_file_rewrite, of "[]" "()" "[]" True
      "''out.png''" 800 600 16 False]
  by simp

text \<open>
  Claim C10. \<^verbatim>\<open>render\<close> reads the scene file, runs both passes and writes the document
  back before it looks at the renderer path: whatever that path is, the scene file holds the
  transformed document afterwards (and the stale output image is removed). In particular
  the call that returns no command, for want of a renderer path, has rewritten the scene
  file all the same.
\<close>

theorem render_rewrites_scene_first:
  assumes "files st input_file = Some (JsonText scene_graph)"
    and "render_keep1cam scene_graph = Inr kept"
    and "render_mergelightgroups kept = Inr merged"
  shows "\<exists>st' cmd out.
           render st project prefix batch input_file output_file width height spp denoise
             = Inr (st', cmd, out)
         \<and> files st' =
             ((files st)(input_file \<mapsto> JsonText merged))(outfile_actual st batch := None)
         \<and> (if GetString st ''OspPath'' = [] then cmd = None \<and> out = None
            else cmd \<noteq> None \<and> out = Some (outfile_actual st batch))"
proof -
  have rw: "rewrite_scene st input_file = Inr (st\<lparr>files := (files st)(input_file \<mapsto> JsonText merged)\<rparr>)"
    using assms by (simp add: rewrite_scene_def)
  show ?thesis
    by (simp add: render_def Let_def rw)
qed

theorem render_rewrites_scene_first_witness:
  "\<exists>st'.
     render (scene_file_state []) () [] True ''/tmp/scene.sg'' ''out.png'' 800 600 16 False
       = Inr (st', None, None)
   \<and> files st' ''/tmp/scene.sg'' = Some (JsonText scene_lights_merged)
   \<and> scene_lights_merged \<noteq> scene_lights"
proof -
  have f: "files (scene_file_state []) ''/tmp/scene.sg'' = Some (JsonText scene_lights)"
    by (simp add: scene_file_state_def)
  have "getitem scene_lights ''camera'' = Inl KeyError"
    by (simp add: scene_lights_def getitem_def)
  then have ne: "scene_lights_merged \<noteq> scene_lights"
    using scene_lights_merged_camera by auto
  have o: "outfile_actual (scene_file_state []) True \<noteq> ''/tmp/scene.sg''"
    by (simp add: outfile_actual_joined path_join_def)
  show ?thesis
    using render_rewrites_scene_first[OF f scene_lights_keep1cam scene_lights_merge,
        of "()" "[]" True "''out.png''" 800 600 16 False] ne o
    by auto
qed

section \<open>Properties of the material dispatcher\<close>

lemma MATERIALS_keys:
  "map fst MATERIALS =
     [''Passthrough'', ''Glass'', ''Disney'', ''Diffuse'', ''Mixed'', ''Carpaint'',
      ''Substance_PBR'', ''Emission'']"
  by (simp add: MATERIALS_def)

lemma MATERIALS_unknown:
  "st \<notin> set (map fst MATERIALS) \<Longrightarrow> map_of MATERIALS st = None"
  by (simp add: map_of_eq_None_iff)

lemma fallback_of_color:
  "write_material_fallback L name (ColorObj c) = Inr (fallback_snippet L (PInt 1) (PInt 1) (PInt 1))"
  by (simp add: write_material_fallback_def fallback_try_def attr_default_color_def)

lemma fallback_of_bundle:
  assumes "to_linear (default_color m) = [r, g, b]"
  shows "write_material_fallback L name (Bundle m) =
           Inr (if (0 \<le> r \<and> r \<le> 1) \<and> (0 \<le> g \<and> g \<le> 1) \<and> (0 \<le> b \<and> b \<le> 1)
                then fallback_snippet L (PFloat r) (PFloat g) (PFloat b)
                else fallback_snippet L (PInt 1) (PInt 1) (PInt 1))"
  using assms
  by (simp add: write_material_fallback_def fallback_try_def attr_default_color_def
      list_index_def)

text \<open>
  Claim C1, as the code has it. For a bundle whose shader type is none of the eight keys of
  \<^verbatim>\<open>MATERIALS\<close>, \<^verbatim>\<open>_write_material\<close> does not raise: it prints the warning and returns the
  fallback text (\<^verbatim>\<open>type obj\<close> with a \<^verbatim>\<open>kd\<close> line) for three numbers of the unit
  interval. The numbers are not the default colour clamped: see the next theorem.
\<close>

theorem write_material_unknown:
  assumes "shadertype m \<notin> set (map fst MATERIALS)"
  shows "\<exists>red grn blu.
           write_material L name m
             = Inr ([unknown_material_message name (shadertype m)], fallback_snippet L red grn blu)
         \<and> 0 \<le> num_val red \<and> num_val red \<le> 1
         \<and> 0 \<le> num_val grn \<and> num_val grn \<le> 1
         \<and> 0 \<le> num_val blu \<and> num_val blu \<le> 1"
proof -
  have "write_material L name m
          = Inr ([unknown_material_message name (shadertype m)],
                 fallback_snippet L (PInt 1) (PInt 1) (PInt 1))"
    using MATERIALS_unknown[OF assms] by (simp add: write_material_def fallback_of_color)
  moreover have "num_val (PInt 1) = 1" by (simp add: num_val_def)
  ultimately show ?thesis by (intro exI[of _ "PInt 1"]) simp
qed

lemma str_int_1: "str_int 1 = ''1''"
  by (simp add: str_int_def str_nat.simps)

theorem write_material_unknown_witness:
  "\<exists>red grn blu.
     write_material sample_lib ''Box'' (sample_bundle ''Velvet'' (Color [2, 1 / 2, 1 / 2]))
       = Inr ([unknown_material_message ''Box'' ''Velvet''], fallback_snippet sample_lib red grn blu)
   \<and> 0 \<le> num_val red \<and> num_val red \<le> 1
   \<and> 0 \<le> num_val grn \<and> num_val grn \<le> 1
   \<and> 0 \<le> num_val blu \<and> num_val blu \<le> 1"
proof -
  have k: "shadertype (sample_bundle ''Velvet'' (Color [2, 1 / 2, 1 / 2])) \<notin> set (map fst MATERIALS)"
    by (simp add: MATERIALS_keys sample_bundle_def)
  have s: "shadertype (sample_bundle ''Velvet'' (Color [2, 1 / 2, 1 / 2])) = ''Velvet''"
    by (simp add: sample_bundle_def)
  show ?thesis
    using write_material_unknown[OF k, of sample_lib "''Box''"] unfolding s .
qed

text \<open>
  Claim C1 as stated fails at the default colour \<^verbatim>\<open>(2.0, 0.5, 0.5)\<close>: clamped, it is
  \<^verbatim>\<open>1.0 0.5 0.5\<close>, and the text returned has \<^verbatim>\<open>kd 1 1 1\<close>.
\<close>

theorem write_material_not_clamped:
  "write_material sample_lib ''Box'' (sample_bundle ''Velvet'' (Color [2, 1 / 2, 1 / 2]))
     = Inr ([unknown_material_message ''Box'' ''Velvet''],
            ''\<newline># Fallback\<newline>type obj\<newline>kd 1 1 1\<newline>ns 2\<newline>'')
   \<and> clamped_fallback sample_lib (sample_bundle ''Velvet'' (Color [2, 1 / 2, 1 / 2]))
       = ''\<newline># Fallback\<newline>type obj\<newline>kd 1.0 0.5 0.5\<newline>ns 2\<newline>''"
  by (simp add: write_material_def MATERIALS_def sample_bundle_def fallback_of_color fallback_snippet_def
      str_num_def str_int_1 clamped_fallback_def clamp01_def sample_lib_def sample_str_float_def)

section \<open>Properties of the value, texture and texture reference helpers\<close>

lemma field_of_absent:
  "map_of FIELD_MAPPING (st, pn) = None \<Longrightarrow> field_of st pn = Some pn"
  by (simp add: field_of_def)

lemma field_of_excluded:
  "map_of FIELD_MAPPING (st, pn) = Some None \<Longrightarrow> field_of st pn = None"
  by (simp add: field_of_def)

lemma field_of_empty:
  "map_of FIELD_MAPPING (st, pn) = Some (Some []) \<Longrightarrow> field_of st pn = Some []"
  by (simp add: field_of_def)

lemma empty_field_pairs:
  assumes "map_of FIELD_MAPPING (st, pn) = Some (Some [])"
  shows "pn \<in> set [''subsurface'', ''speculartint'', ''diffuse'', ''shader'', ''glass'',
                    ''string'', ''renderer'']"
  using assms by (simp add: FIELD_MAPPING_def split: if_splits)

lemma special_cases_plain:
  "pn \<noteq> ''clearcoatgloss'' \<Longrightarrow> pn \<noteq> ''specular'' \<Longrightarrow> special_cases pn v m = Inr v"
  by (simp add: special_cases_def)

lemma write_value_excluded:
  "field_of st pn = None \<Longrightarrow>
     write_value L pt pn st v obj m = Inr ([skipping_message obj st pn], [])"
  by (simp add: write_value_def)

lemma write_value_field:
  "field_of st pn = Some field \<Longrightarrow> special_cases pn v m = Inr val \<Longrightarrow>
     write_value L pt pn st v obj m =
       bind_err (format_value L pt field val) (\<lambda>formatted. Inr ([], formatted))"
  by (simp add: write_value_def)

lemma write_value_special_error:
  "field_of st pn = Some field \<Longrightarrow> special_cases pn v m = Inl e \<Longrightarrow>
     write_value L pt pn st v obj m = Inl e"
  by (simp add: write_value_def)

lemma format_value_unknown:
  "pt \<notin> set [''RGB'', ''RGBA'', ''float'', ''str'', ''node''] \<Longrightarrow>
     format_value L pt field val = Inl NotImplementedError"
  by (simp add: format_value_def)

text \<open>
  Claim C8, as the code has it. For a property whose pair is not mapped to \<^verbatim>\<open>None\<close> (it has a
  field name) the formatter branches on the property type, on the value that the special
  cases (\<^verbatim>\<open>clearcoatgloss\<close>, \<^verbatim>\<open>specular\<close>) leave: \<^verbatim>\<open>RGB\<close> gives the field name and 3
  floats at 8 significant digits, \<^verbatim>\<open>RGBA\<close> 4 floats, \<^verbatim>\<open>float\<close> one float, \<^verbatim>\<open>str\<close> the value as
  it is, \<^verbatim>\<open>node\<close> the empty string, and every other property type raises.
\<close>

theorem write_value_branches:
  assumes "field_of st pn = Some field"
  shows "(\<forall>val. special_cases pn v m = Inr val \<longrightarrow>
            (pt = ''RGB'' \<longrightarrow> (\<forall>r g b rest. val = VColor (Color (r # g # b # rest)) \<longrightarrow>
               write_value L pt pn st v obj m
                 = Inr ([], field @ '' '' @ fmt8 L r @ '' '' @ fmt8 L g @ '' '' @ fmt8 L b)))
          \<and> (pt = ''RGBA'' \<longrightarrow> (\<forall>r g b a rest. val = VColor (Color (r # g # b # a # rest)) \<longrightarrow>
               write_value L pt pn st v obj m
                 = Inr ([], field @ '' '' @ fmt8 L r @ '' '' @ fmt8 L g @ '' '' @ fmt8 L b
                            @ '' '' @ fmt8 L a)))
          \<and> (pt = ''float'' \<longrightarrow> (\<forall>x. val = VFloat x \<longrightarrow>
               write_value L pt pn st v obj m = Inr ([], field @ '' '' @ fmt8 L x)))
          \<and> (pt = ''str'' \<longrightarrow> (\<forall>s. val = VStr s \<longrightarrow>
               write_value L pt pn st v obj m = Inr ([], field @ '' '' @ s)))
          \<and> (pt = ''node'' \<longrightarrow> write_value L pt pn st v obj m = Inr ([], []))
          \<and> (pt \<notin> set [''RGB'', ''RGBA'', ''float'', ''str'', ''node''] \<longrightarrow>
               write_value L pt pn st v obj m = Inl NotImplementedError))
       \<and> (pt \<notin> set [''RGB'', ''RGBA'', ''float'', ''str'', ''node''] \<longrightarrow>
            isl (write_value L pt pn st v obj m))"
proof -
  have a: "write_value L pt pn st v obj m =
      bind_err (format_value L pt field val) (\<lambda>formatted. Inr ([], formatted))"
    if "special_cases pn v m = Inr val" for val
    using assms that by (rule write_value_field)
  have b: "isl (write_value L pt pn st v obj m)"
    if "pt \<notin> set [''RGB'', ''RGBA'', ''float'', ''str'', ''node'']"
  proof (cases "special_cases pn v m")
    case (Inl e)
    then show ?thesis using assms by (simp add: write_value_special_error)
  next
    case (Inr val)
    then show ?thesis using a[OF Inr] format_value_unknown[OF that] by simp
  qed
  show ?thesis
    using b
    by (auto simp: write_value_field[OF assms] format_value_def linear_of_def list_index_def
        format8_def py_str_def)
qed

lemma sample_fmt8 [simp]:
  "fmt8 sample_lib 0 = ''0.0''" "fmt8 sample_lib (1 / 2) = ''0.5''" "fmt8 sample_lib 1 = ''1.0''"
  by (simp_all add: sample_lib_def sample_str_float_def)

theorem write_value_branches_witness:
  "write_value sample_lib ''RGB'' ''color'' ''Diffuse'' (VColor (Color [1, 1 / 2, 0])) ''Box''
       (sample_bundle ''Diffuse'' (Color [1, 1, 1]))
     = Inr ([], ''baseColor 1.0 0.5 0.0'')
   \<and> write_value sample_lib ''float'' ''roughness'' ''Disney'' (VFloat (1 / 2)) ''Box''
       (sample_bundle ''Disney'' (Color [1, 1, 1]))
     = Inr ([], ''roughness 0.5'')
   \<and> write_value sample_lib ''matrix'' ''color'' ''Diffuse'' (VFloat 0) ''Box''
       (sample_bundle ''Diffuse'' (Color [1, 1, 1]))
     = Inl NotImplementedError"
proof -
  have f: "field_of ''Diffuse'' ''color'' = Some ''baseColor''"
    "field_of ''Disney'' ''roughness'' = Some ''roughness''"
    by (simp_all add: field_of_def FIELD_MAPPING_def)
  show ?thesis
    using write_value_branches[OF f(1), of "VColor (Color [1, 1 / 2, 0])"
        "sample_bundle ''Diffuse'' (Color [1, 1, 1])" "''RGB''" sample_lib "''Box''"]
      write_value_branches[OF f(2), of "VFloat (1 / 2)"
        "sample_bundle ''Disney'' (Color [1, 1, 1])" "''float''" sample_lib "''Box''"]
      write_value_branches[OF f(1), of "VFloat 0"
        "sample_bundle ''Diffuse'' (Color [1, 1, 1])" "''matrix''" sample_lib "''Box''"]
    by (simp add: special_cases_plain)
qed

text \<open>
  Claim C8 as stated fails for a pair mapped to \<^verbatim>\<open>None\<close>: the exclusion comes before the
  branch on the type, so an unknown property type does not raise there, and \<^verbatim>\<open>RGB\<close> gives
  the empty string.
\<close>

theorem write_value_excluded_unknown_type:
  "write_value sample_lib ''matrix'' ''bump'' ''Diffuse'' (VFloat 0) ''Box''
       (sample_bundle ''Diffuse'' (Color [1, 1, 1]))
     = Inr ([skipping_message ''Box'' ''Diffuse'' ''bump''], [])
   \<and> write_value sample_lib ''RGB'' ''bump'' ''Diffuse'' (VColor (Color [1, 1 / 2, 0])) ''Box''
       (sample_bundle ''Diffuse'' (Color [1, 1, 1]))
     = Inr ([skipping_message ''Box'' ''Diffuse'' ''bump''], [])"
  by (simp add: write_value_def field_of_def FIELD_MAPPING_def)

lemma write_texref_excluded:
  "field_of st pn = None \<Longrightarrow>
     write_texref L pt pn st obj m = Inr ([skipping_message obj st pn], [])"
  by (simp add: write_texref_def)

lemma write_texture_excluded:
  "field_of st pn = None \<Longrightarrow> write_texture L pt pn st tex obj dir = Inr ([], pn, [])"
  by (simp add: write_texture_def)

text \<open>
  Claim C2, as the code has it. A pair absent from \<^verbatim>\<open>_FIELD_MAPPING\<close> keeps its property name
  as the field name; a pair mapped to \<^verbatim>\<open>None\<close> gives no output in any of the three helpers;
  a pair mapped to the empty string is not omitted by the helpers: the value and the texture
  reference are written with an empty field name, so the text starts with a space, and only
  a \<^verbatim>\<open>node\<close> value gives the empty string.
\<close>

theorem field_mapping_honoured:
  "(map_of FIELD_MAPPING (st, pn) = None \<longrightarrow>
        field_of st pn = Some pn
      \<and> (pn \<noteq> ''clearcoatgloss'' \<and> pn \<noteq> ''specular'' \<longrightarrow>
           write_value L ''float'' pn st (VFloat x) obj m = Inr ([], pn @ '' '' @ fmt8 L x)))
   \<and> (map_of FIELD_MAPPING (st, pn) = Some None \<longrightarrow>
        write_value L pt pn st v obj m = Inr ([skipping_message obj st pn], [])
      \<and> write_texref L pt pn st obj m = Inr ([skipping_message obj st pn], [])
      \<and> write_texture L pt pn st tex obj dir = Inr ([], pn, []))
   \<and> (map_of FIELD_MAPPING (st, pn) = Some (Some []) \<longrightarrow>
        write_value L ''float'' pn st (VFloat x) obj m = Inr ([], '' '' @ fmt8 L x)
      \<and> write_value L ''str'' pn st (VStr s) obj m = Inr ([], '' '' @ s)
      \<and> write_value L ''node'' pn st v obj m = Inr ([], [])
      \<and> write_texref L ''float'' pn st obj m = Inr ([], '' 1.0''))"
proof (intro conjI impI)
  assume a: "map_of FIELD_MAPPING (st, pn) = None"
  show "field_of st pn = Some pn" using a by (rule field_of_absent)
  assume "pn \<noteq> ''clearcoatgloss'' \<and> pn \<noteq> ''specular''"
  then show "write_value L ''float'' pn st (VFloat x) obj m = Inr ([], pn @ '' '' @ fmt8 L x)"
    using field_of_absent[OF a]
    by (simp add: write_value_def special_cases_plain format_value_def format8_def)
next
  assume a: "map_of FIELD_MAPPING (st, pn) = Some None"
  note f = field_of_excluded[OF a]
  show "write_value L pt pn st v obj m = Inr ([skipping_message obj st pn], [])"
    using f by (rule write_value_excluded)
  show "write_texref L pt pn st obj m = Inr ([skipping_message obj st pn], [])"
    using f by (rule write_texref_excluded)
  show "write_texture L pt pn st tex obj dir = Inr ([], pn, [])"
    using f by (rule write_texture_excluded)
next
  assume a: "map_of FIELD_MAPPING (st, pn) = Some (Some [])"
  note f = field_of_empty[OF a]
  have p: "pn \<noteq> ''clearcoatgloss''" "pn \<noteq> ''specular''" "pn \<noteq> ''ior''"
    using empty_field_pairs[OF a] by auto
  have sc: "special_cases pn w m = Inr w" for w
    using p by (simp add: special_cases_plain)
  show "write_value L ''float'' pn st (VFloat x) obj m = Inr ([], '' '' @ fmt8 L x)"
    by (simp add: write_value_field[OF f sc] format_value_def format8_def)
  show "write_value L ''str'' pn st (VStr s) obj m = Inr ([], '' '' @ s)"
    by (simp add: write_value_field[OF f sc] format_value_def py_str_def)
  show "write_value L ''node'' pn st v obj m = Inr ([], [])"
    by (simp add: write_value_field[OF f sc] format_value_def)
  show "write_texref L ''float'' pn st obj m = Inr ([], '' 1.0'')"
    using f p by (simp add: write_texref_def)
qed

theorem field_mapping_honoured_witness:
  "write_value sample_lib ''float'' ''roughness'' ''Disney'' (VFloat (1 / 2)) ''Box''
       (sample_bundle ''Disney'' (Color [1, 1, 1]))
     = Inr ([], ''roughness 0.5'')
   \<and> write_value sample_lib ''float'' ''bump'' ''Disney'' (VFloat (1 / 2)) ''Box''
       (sample_bundle ''Disney'' (Color [1, 1, 1]))
     = Inr ([skipping_message ''Box'' ''Disney'' ''bump''], [])
   \<and> write_value sample_lib ''float'' ''speculartint'' ''Disney'' (VFloat (1 / 2)) ''Box''
       (sample_bundle ''Disney'' (Color [1, 1, 1]))
     = Inr ([], '' 0.5'')"
proof -
  have k: "map_of FIELD_MAPPING (''Disney'', ''roughness'') = None"
    "map_of FIELD_MAPPING (''Disney'', ''bump'') = Some None"
    "map_of FIELD_MAPPING (''Disney'', ''speculartint'') = Some (Some [])"
    by (simp_all add: FIELD_MAPPING_def)
  show ?thesis
    using field_mapping_honoured[of "''Disney''" "''roughness''" sample_lib "1 / 2" "''Box''"
        "sample_bundle ''Disney'' (Color [1, 1, 1])"]
      field_mapping_honoured[of "''Disney''" "''bump''" sample_lib "1 / 2" "''Box''"
        "sample_bundle ''Disney'' (Color [1, 1, 1])" "''float''" "VFloat (1 / 2)"]
      field_mapping_honoured[of "''Disney''" "''speculartint''" sample_lib "1 / 2" "''Box''"
        "sample_bundle ''Disney'' (Color [1, 1, 1])"]
    by (simp add: k)
qed

text \<open>
  Claim C2 as stated fails at \<^verbatim>\<open>("Disney", "subsurface")\<close> and at
  \<^verbatim>\<open>("Passthrough", "string")\<close>, both mapped to the empty string: the helper returns text.
\<close>

theorem empty_field_not_omitted:
  "map_of FIELD_MAPPING (''Disney'', ''subsurface'') = Some (Some [])
   \<and> write_value sample_lib ''float'' ''subsurface'' ''Disney'' (VFloat 0) ''Box''
       (sample_bundle ''Disney'' (Color [1, 1, 1]))
     = Inr ([], '' 0.0'')
   \<and> map_of FIELD_MAPPING (''Passthrough'', ''string'') = Some (Some [])
   \<and> write_value sample_lib ''str'' ''string'' ''Passthrough'' (VStr ''type obj'') ''Box''
       (sample_bundle ''Passthrough'' (Color [1, 1, 1]))
     = Inr ([], '' type obj'')"
  by (simp add: write_value_def field_of_def FIELD_MAPPING_def special_cases_plain
      format_value_def format8_def py_str_def)

section \<open>Properties of the sun and sky light\<close>

lemma PLACEMENT_multVec: "multVec PLACEMENT (a, b, c) = (a, c, - b)"
  by (simp add: multVec_def PLACEMENT_def mat_vec_def dot_def vadd_def)

lemma norm_pos:
  fixes x y z :: real
  assumes "(x, y, z) \<noteq> (0, 0, 0)"
  shows "0 < sqrt (x ^ 2 + y ^ 2 + z ^ 2)"
proof -
  have "0 \<le> x ^ 2" "0 \<le> y ^ 2" "0 \<le> z ^ 2" by simp_all
  moreover have "x ^ 2 \<noteq> 0 \<or> y ^ 2 \<noteq> 0 \<or> z ^ 2 \<noteq> 0" using assms by auto
  ultimately have "0 < x ^ 2 + y ^ 2 + z ^ 2" by linarith
  then show ?thesis by simp
qed

lemma ratio_in_range:
  fixes x y z :: real
  assumes "(x, y, z) \<noteq> (0, 0, 0)"
  shows "- 1 \<le> y / sqrt (x ^ 2 + y ^ 2 + z ^ 2) \<and> y / sqrt (x ^ 2 + y ^ 2 + z ^ 2) \<le> 1"
proof -
  let ?n = "sqrt (x ^ 2 + y ^ 2 + z ^ 2)"
  have n: "0 < ?n" using assms by (rule norm_pos)
  have "y ^ 2 \<le> x ^ 2 + y ^ 2 + z ^ 2" by simp
  then have "sqrt (y ^ 2) \<le> ?n" by (rule real_sqrt_le_mono)
  then have "\<bar>y\<bar> \<le> ?n" by simp
  then have "- ?n \<le> y" "y \<le> ?n" by linarith+
  then show ?thesis using n by (simp add: pos_le_divide_eq pos_divide_le_eq)
qed

lemma degrees_right_angle: "degrees (arcsin 1) = 90"
  by (simp add: degrees_def)

lemma atan2_origin: "atan2 0 0 = 0"
  by (simp add: atan2_def)

text \<open>
  Claim C7, with floats read as real numbers. For a direction that is not the null vector,
  the direction in OSPRay's coordinates is \<open>(dx, dz, - dy)\<close>; the text written has the
  elevation \<open>asin (y / |d|)\<close> and the azimuth \<open>atan2 x z\<close> of that vector, both in degrees,
  and the intensity \<open>sun_intensity * 0.05\<close>. A direction that maps to OSPRay's \<open>+Y\<close> gives 90
  and 0 degrees. A sky intensity other than 1 prints the warning, and the text does not
  depend on it.
\<close>

theorem sunskylight_angles:
  assumes "(dx, dy, dz) \<noteq> (0, 0, 0)"
  shows "multVec PLACEMENT (dx, dy, dz) = (dx, dz, - dy)
       \<and> write_sunskylight L name (dx, dy, dz) distance turbidity albedo sun_intensity sky_intensity
           = Inr (if sky_intensity \<noteq> 1 then [sky_intensity_warning] else [],
                  sunsky_snippet L name (sun_intensity * (5 / 100))
                    (degrees (arcsin (dz / sqrt (dx ^ 2 + dz ^ 2 + (- dy) ^ 2))))
                    (degrees (atan2 dx (- dy))) turbidity albedo)
       \<and> (dx = 0 \<and> dy = 0 \<and> 0 < dz \<longrightarrow>
            degrees (arcsin (dz / sqrt (dx ^ 2 + dz ^ 2 + (- dy) ^ 2))) = 90
          \<and> degrees (atan2 dx (- dy)) = 0)"
proof (intro conjI impI)
  show "multVec PLACEMENT (dx, dy, dz) = (dx, dz, - dy)" by (rule PLACEMENT_multVec)
next
  have ne: "(dx, dz, - dy) \<noteq> (0, 0, 0)" using assms by auto
  have n: "sqrt (dx ^ 2 + dz ^ 2 + (- dy) ^ 2) \<noteq> 0" using norm_pos[OF ne] by simp
  note r = ratio_in_range[OF ne]
  show "write_sunskylight L name (dx, dy, dz) distance turbidity albedo sun_intensity sky_intensity
           = Inr (if sky_intensity \<noteq> 1 then [sky_intensity_warning] else [],
                  sunsky_snippet L name (sun_intensity * (5 / 100))
                    (degrees (arcsin (dz / sqrt (dx ^ 2 + dz ^ 2 + (- dy) ^ 2))))
                    (degrees (atan2 dx (- dy))) turbidity albedo)"
    using n r
    by (simp add: write_sunskylight_def PLACEMENT_multVec py_div_def asin_def del: power2_minus)
next
  assume a: "dx = 0 \<and> dy = 0 \<and> 0 < dz"
  then have "dz / sqrt (dx ^ 2 + dz ^ 2 + (- dy) ^ 2) = 1" by simp
  then show "degrees (arcsin (dz / sqrt (dx ^ 2 + dz ^ 2 + (- dy) ^ 2))) = 90"
    by (simp only: degrees_right_angle)
  show "degrees (atan2 dx (- dy)) = 0" using a by (simp add: atan2_origin degrees_def)
qed

theorem sunskylight_angles_witness:
  "write_sunskylight sample_lib ''Sun'' (0, 0, 1) 1 3 (3 / 10) 20 1
     = Inr ([], sunsky_snippet sample_lib ''Sun'' 1 90 0 3 (3 / 10))
   \<and> write_sunskylight sample_lib ''Sun'' (0, 0, 1) 1 3 (3 / 10) 20 2
     = Inr ([sky_intensity_warning], sunsky_snippet sample_lib ''Sun'' 1 90 0 3 (3 / 10))"
  using sunskylight_angles[of 0 0 1 sample_lib "''Sun''" 1 3 "3 / 10" 20 1]
    sunskylight_angles[of 0 0 1 sample_lib "''Sun''" 1 3 "3 / 10" 20 2]
  by simp

section \<open>Properties of the area light\<close>

lemma object_paths_differ:
  "path_join od (name @ ''.mtl'') \<noteq> path_join od (name @ ''.obj'')"
  by (cases name) (auto simp: path_join_def)

text \<open>
  Claim C6, with floats read as real numbers. For sizes that are not zero and a colour with
  three components, \<^verbatim>\<open>write_arealight\<close> returns, and the material file it leaves holds the
  luminous material whose intensity is \<open>power / (size_u * size_v * 1000)\<close> and whose
  transparency is 1 when the light is transparent and 0 otherwise. The witness is the case
  of power 1000 and sizes 1, where the intensity is 1.
\<close>

theorem arealight_radiance:
  assumes "size_u \<noteq> 0" and "size_v \<noteq> 0"
    and "to_linear color = c0 # c1 # c2 # rest"
  shows "\<exists>st' snippet.
           write_arealight st L name pos size_u size_v color light_power transparent
               project_directory object_directory
             = Inr (st', snippet)
         \<and> files st' (path_join object_directory (name @ ''.mtl''))
             = Some (PlainText
                 (arealight_mtl L c0 c1 c2 (light_power / (size_u * size_v * 1000))
                    (if transparent then 1 else 0)))"
  using assms object_paths_differ[of object_directory name]
  by (simp add: write_arealight_def py_div_def list_index_def Let_def new_object_file_path_def
      write_text_def split_beta)

theorem arealight_radiance_witness:
  "(\<exists>st' snippet.
      write_arealight empty_state sample_lib ''Lamp'' identity_placement 1 1 (Color [1, 1, 1])
          1000 True ''/proj'' ''/proj/obj''
        = Inr (st', snippet)
    \<and> files st' ''/proj/obj/Lamp.mtl''
        = Some (PlainText (arealight_mtl sample_lib 1 1 1 1 1)))
   \<and> (\<exists>st' snippet.
      write_arealight empty_state sample_lib ''Lamp'' identity_placement 1 1 (Color [1, 1, 1])
          1000 False ''/proj'' ''/proj/obj''
        = Inr (st', snippet)
    \<and> files st' ''/proj/obj/Lamp.mtl''
        = Some (PlainText (arealight_mtl sample_lib 1 1 1 1 0)))"
  using arealight_radiance[of 1 1 "Color [1, 1, 1]" 1 1 1 "[]" empty_state sample_lib "''Lamp''"
      identity_placement 1000 True "''/proj''" "''/proj/obj''"]
    arealight_radiance[of 1 1 "Color [1, 1, 1]" 1 1 1 "[]" empty_state sample_lib "''Lamp''"
      identity_placement 1000 False "''/proj''" "''/proj/obj''"]
  by (simp add: path_join_def)

lemma arealight_mtl_sample:
  \<open>arealight_mtl sample_lib 1 1 1 1 0 =
     ''\<newline># Created by FreeCAD <https://FreeCAD.Org>",\<newline>newmtl material\<newline>type luminous\<newline>color 1.0 1.0 1.0\<newline>intensity 1.0\<newline>transparency 0.0\<newline>''\<close>
  by (simp add: arealight_mtl_def sample_lib_def sample_str_float_def)

lemma arealight_zero_size:
  "size_u = 0 \<or> size_v = 0 \<Longrightarrow>
     write_arealight st L name pos size_u size_v color light_power transparent
         project_directory object_directory
       = Inl ZeroDivisionError"
  by (auto simp: write_arealight_def py_div_def)

end
